theory Spec2Isabelle
  imports Main "HOL-Library.Word"
begin

unbundle bit_operations_syntax

section \<open>ArduCopterMega control core: data\<close>

text \<open>
  The sketch keeps its state in global variables. The model gathers the ones the
  modelled functions read or write in one record that every function takes and
  returns. The AVR types are kept where a counter can wrap: \<open>byte\<close> and \<open>uint8_t\<close>
  are \<open>8 word\<close>, \<open>unsigned long\<close> is \<open>32 word\<close>. The \<open>long\<close> and \<open>int\<close> quantities
  (coordinates, altitudes, distances, stick positions) are \<open>int\<close>: the modelled code
  only compares and copies them, or adds two of them far from the ends of their range.
  Floating-point globals (\<open>load\<close>, \<open>G_Dt\<close>) are left out.
\<close>

datatype FlightMode = STABILIZE | ACRO | ALT_HOLD | SIMPLE | FBW | AUTO | GCS_AUTO | LOITER | RTL

datatype AltSensor = BARO | SONAR

record Location =
  lat :: int
  lng :: int
  alt :: int

text \<open>The fields of the GPS driver object \<open>g_gps\<close> that the sketch reads (\<open>fix\<close> is \<open>gps_fix\<close>).\<close>

record GPS =
  new_data :: bool
  gps_fix :: bool
  latitude :: int
  longitude :: int
  altitude :: int

datatype msg = MSG_PERF_REPORT | MSG_RADIO_OUT | MSG_ATTITUDE | MSG_LOCATION | MSG_HEARTBEAT

text \<open>
  Procedures of the sketch that live in other files. A call is recorded, in order, in
  the \<open>trace\<close> of the state: the control outputs and the navigation procedures each
  have a constructor, a logging procedure \<open>Log_Write_X()\<close> is \<open>Log_Write ''X''\<close>, and any
  other procedure \<open>f()\<close> is \<open>Ext ''f''\<close>. Where such a procedure leaves a value that the
  modelled code reads afterwards, the value comes from the \<open>inputs\<close> record below.
\<close>

datatype call =
    Output_stabilize_roll | Output_stabilize_pitch | Output_rate_roll | Output_rate_pitch
  | Output_auto_throttle | Output_manual_yaw | Output_manual_throttle
  | Auto_yaw | Control_nav_mixer | Fbw_nav_mixer
  | Navigate | Calc_loiter_nav | Calc_waypoint_nav | Calc_bearing_error
  | Set_servos_4 | Send_message msg | Log_Write string | SendDebugln string | Ext string

text \<open>
  Compile-time configuration: macros of \<open>config.h\<close> and \<open>defines.h\<close>, which are not
  among the sources. They are parameters of the model.
\<close>

record build =
  HIL_MODE_ATTITUDE :: bool         \<comment> \<open>\<open>HIL_MODE == HIL_MODE_ATTITUDE\<close>\<close>
  HIL_PROTOCOL_MAVLINK :: bool      \<comment> \<open>\<open>HIL_PROTOCOL == HIL_PROTOCOL_MAVLINK\<close>\<close>
  GCS_PROTOCOL_MAVLINK :: bool      \<comment> \<open>\<open>GCS_PROTOCOL == GCS_PROTOCOL_MAVLINK\<close>\<close>
  GCS_PROTOCOL_6 :: bool            \<comment> \<open>\<open>GCS_PROTOCOL == 6\<close>\<close>
  BATTERY_EVENT :: bool             \<comment> \<open>\<open>BATTERY_EVENT == 1\<close>\<close>
  ENABLE_CAM :: bool
  ACRO_RATE_TRIGGER :: int
  MASK_LOG_ATTITUDE_FAST :: "16 word"
  MASK_LOG_ATTITUDE_MED :: "16 word"
  MASK_LOG_GPS :: "16 word"
  MASK_LOG_PM :: "16 word"
  MASK_LOG_CTUN :: "16 word"
  MASK_LOG_NTUN :: "16 word"
  MASK_LOG_RAW :: "16 word"
  MASK_LOG_CMD :: "16 word"
  MASK_LOG_CUR :: "16 word"

text \<open>
  What the outside world hands to one pass of the scheduler: clock readings (one per
  \<open>millis()\<close> call site of \<open>loop\<close> and \<open>medium_loop\<close>), the state of the GPS driver after
  \<open>g_gps->update()\<close>, sensor readings, the stick positions left by \<open>read_radio()\<close>, the
  distance left in \<open>wp_distance\<close> by \<open>navigate()\<close>, the mode left by
  \<open>read_control_switch()\<close>, and the results of the float helpers \<open>get_bearing\<close>,
  \<open>get_distance\<close>, \<open>wrap_360\<close> and of the float scaling of the stick in SIMPLE mode.
\<close>

record inputs =
  millis :: "nat \<Rightarrow> 32 word"
  gps_in :: GPS
  barometer_in :: int
  sonar_in :: int
  rc_1_in :: int
  rc_2_in :: int
  rc_3_in :: int
  navigate_wp_distance :: int
  switch_mode :: FlightMode
  get_bearing :: "Location \<Rightarrow> Location \<Rightarrow> int"
  get_distance :: "Location \<Rightarrow> Location \<Rightarrow> int"
  wrap_360 :: "int \<Rightarrow> int"
  times_point4 :: "int \<Rightarrow> int"       \<comment> \<open>\<open>(long)((float)x * .4)\<close>\<close>

record copter =
  control_mode :: FlightMode
  ground_start_count :: "8 word"
  GPS_failure_counter :: "8 word"
  GPS_disabled :: bool
  gps_fix_count :: int
  g_gps :: GPS
  home :: Location
  current_loc :: Location
  next_WP :: Location
  home_is_set :: bool
  nav_bearing :: int
  nav_pitch :: int
  nav_roll :: int
  initial_simple_bearing :: int
  wp_distance :: int
  sonar_alt :: int
  baro_alt :: int
  altitude_sensor :: AltSensor
  rc_1_control_in :: int
  rc_2_control_in :: int
  rc_3_control_in :: int
  sonar_enabled :: bool
  compass_enabled :: bool
  current_enabled :: bool
  log_bitmask :: "16 word"
  fast_loopTimer :: "32 word"
  fast_loopTimeStamp :: "32 word"
  delta_ms_fast_loop :: "8 word"
  mainLoop_count :: int
  G_Dt_max :: int
  medium_loopTimer :: "32 word"
  medium_loopCounter :: "8 word"
  delta_ms_medium_loop :: "8 word"
  slow_loopCounter :: "8 word"
  superslow_loopCounter :: int
  fbw_timer :: "8 word"
  nav2_loopTimer :: "32 word"
  dTnav2 :: "32 word"
  perf_mon_timer :: "32 word"
  counter_one_herz :: "8 word"
  trace :: "call list"

definition emit :: "call \<Rightarrow> copter \<Rightarrow> copter" where
  "emit c s = s\<lparr>trace := trace s @ [c]\<rparr>"

definition emits :: "call list \<Rightarrow> copter \<Rightarrow> copter" where
  "emits cs s = s\<lparr>trace := trace s @ cs\<rparr>"

text \<open>C's integer division, which truncates towards zero.\<close>

definition c_div :: "int \<Rightarrow> int \<Rightarrow> int" where
  "c_div a b = sgn a * sgn b * (\<bar>a\<bar> div \<bar>b\<bar>)"

text \<open>The initial values the sketch gives its globals (the others start at zero).\<close>

definition zero_loc :: Location where
  "zero_loc = \<lparr>lat = 0, lng = 0, alt = 0\<rparr>"

definition no_gps :: GPS where
  "no_gps = \<lparr>new_data = False, gps_fix = False, latitude = 0, longitude = 0, altitude = 0\<rparr>"

definition init_copter :: copter where
  "init_copter = \<lparr>control_mode = STABILIZE, ground_start_count = 5, GPS_failure_counter = 3,
     GPS_disabled = False, gps_fix_count = 0, g_gps = no_gps, home = zero_loc,
     current_loc = zero_loc, next_WP = zero_loc, home_is_set = False, nav_bearing = 0,
     nav_pitch = 0, nav_roll = 0, initial_simple_bearing = 0, wp_distance = 0, sonar_alt = 0,
     baro_alt = 0, altitude_sensor = BARO, rc_1_control_in = 0, rc_2_control_in = 0,
     rc_3_control_in = 0, sonar_enabled = False, compass_enabled = False,
     current_enabled = False, log_bitmask = 0, fast_loopTimer = 0, fast_loopTimeStamp = 0,
     delta_ms_fast_loop = 0, mainLoop_count = 0, G_Dt_max = 0, medium_loopTimer = 0,
     medium_loopCounter = 0, delta_ms_medium_loop = 0, slow_loopCounter = 0,
     superslow_loopCounter = 0, fbw_timer = 0, nav2_loopTimer = 0, dTnav2 = 0,
     perf_mon_timer = 0, counter_one_herz = 0, trace = []\<rparr>"

section \<open>GPS acquisition\<close>

text \<open>
  Modelled from the spec: \<open>init_home()\<close> is called by \<open>update_GPS\<close> but defined in a file
  that is not among the sources. The spec says that the ground start latches \<open>home\<close>
  from the current fix and altitude; the flag \<open>home_is_set\<close> is set with it.
\<close>

definition init_home :: "copter \<Rightarrow> copter" where
  "init_home s = emit (Ext ''init_home'')
     (s\<lparr>home := \<lparr>lat = latitude (g_gps s), lng = longitude (g_gps s), alt = altitude (g_gps s)\<rparr>,
        home_is_set := True\<rparr>)"

text \<open>
  \<open>update_GPS\<close>. The driver's \<open>update()\<close> is outside the sketch: its effect is that the
  driver object now holds \<open>gps_in\<close>. The message to the ground station is sent only when
  the protocol is not MAVLink; the startup log entry only when the command log is on.
\<close>

definition update_GPS :: "build \<Rightarrow> inputs \<Rightarrow> copter \<Rightarrow> copter" where
  "update_GPS b i s0 =
    (let s = emit (Ext ''update_GPS_light'') (emit (Ext ''g_gps->update'') (s0\<lparr>g_gps := gps_in i\<rparr>))
     in if new_data (g_gps s) \<and> gps_fix (g_gps s) then
          let s = s\<lparr>GPS_failure_counter := 3\<rparr>;
              s = (if \<not> GCS_PROTOCOL_MAVLINK b then emit (Send_message MSG_LOCATION) s else s);
              s = s\<lparr>gps_fix_count := gps_fix_count s + 1\<rparr>;
              s = (if ground_start_count s > 1 then
                     s\<lparr>ground_start_count := ground_start_count s - 1\<rparr>
                   else if ground_start_count s = 1 then
                     (if lat (current_loc s) = 0 then
                        (emit (SendDebugln ''!! bad loc'') s)\<lparr>ground_start_count := 5\<rparr>
                      else
                        let s = (if log_bitmask s AND MASK_LOG_CMD b \<noteq> 0
                                 then emit (Log_Write ''Startup'') s else s);
                            s = init_home s;
                            s = s\<lparr>current_loc := (current_loc s)\<lparr>alt := altitude (g_gps s)\<rparr>\<rparr>
                        in s\<lparr>ground_start_count := 0\<rparr>)
                   else s);
              s = s\<lparr>current_loc := (current_loc s)\<lparr>lng := longitude (g_gps s)\<rparr>\<rparr>
          in s\<lparr>current_loc := (current_loc s)\<lparr>lat := latitude (g_gps s)\<rparr>\<rparr>
        else
          (if GPS_failure_counter s > 0
           then s\<lparr>GPS_failure_counter := GPS_failure_counter s - 1\<rparr> else s))"


section \<open>Altitude fusion\<close>

text \<open>
  \<open>update_alt\<close>. Under \<open>HIL_MODE_ATTITUDE\<close> the altitude is the GPS altitude. Otherwise
  the selected sensor is set to \<open>BARO\<close> first, on every call, and sonar is considered only
  when it is enabled.
\<close>

definition update_alt :: "build \<Rightarrow> inputs \<Rightarrow> copter \<Rightarrow> copter" where
  "update_alt b i s0 =
    (let s =
       (if HIL_MODE_ATTITUDE b then
          s0\<lparr>current_loc := (current_loc s0)\<lparr>alt := altitude (g_gps s0)\<rparr>\<rparr>
        else
          let s = s0\<lparr>altitude_sensor := BARO\<rparr>;
              s = (emit (Ext ''read_barometer'') s)\<lparr>baro_alt := barometer_in i\<rparr>
          in if sonar_enabled s then
               let s = (emit (Ext ''sonar.read'') s)\<lparr>sonar_alt := sonar_in i\<rparr>;
                   s = (if baro_alt s < 550 then s\<lparr>altitude_sensor := SONAR\<rparr> else s);
                   s = (if sonar_alt s > 600 then s\<lparr>altitude_sensor := BARO\<rparr> else s)
               in if altitude_sensor s = BARO then
                    s\<lparr>current_loc := (current_loc s)\<lparr>alt := baro_alt s + alt (home s)\<rparr>\<rparr>
                  else
                    let s = s\<lparr>sonar_alt := min (sonar_alt s) 600\<rparr>
                    in s\<lparr>current_loc := (current_loc s)\<lparr>alt := sonar_alt s + alt (home s)\<rparr>\<rparr>
             else
               s\<lparr>current_loc := (current_loc s)\<lparr>alt := baro_alt s + alt (home s)\<rparr>\<rparr>)
     in emits [Ext ''calc_altitude_smoothing_error'', Ext ''calc_nav_throttle''] s)"

section \<open>Flight-mode evaluation\<close>

text \<open>
  \<open>update_current_flight_mode\<close>. \<open>AUTO\<close> is tested first; its inner \<open>switch\<close> on the
  command has only a \<open>default\<close> branch. The other modes are the cases of the second
  \<open>switch\<close>, whose \<open>default\<close> branch does nothing: of the nine modes it is taken by
  \<open>GCS_AUTO\<close>.
\<close>

definition update_current_flight_mode :: "build \<Rightarrow> inputs \<Rightarrow> copter \<Rightarrow> copter" where
  "update_current_flight_mode b i s =
    (case control_mode s of
       AUTO \<Rightarrow>
         emits [Auto_yaw, Control_nav_mixer, Output_stabilize_roll, Output_stabilize_pitch,
                Output_auto_throttle] s
     | ACRO \<Rightarrow>
         let s = s\<lparr>nav_pitch := 0, nav_roll := 0\<rparr>;
             s = emits [Output_manual_yaw, Output_manual_throttle, Control_nav_mixer] s;
             s = (if \<bar>rc_1_control_in s\<bar> \<ge> ACRO_RATE_TRIGGER b
                  then emit Output_rate_roll s else emit Output_stabilize_roll s)
         in (if \<bar>rc_2_control_in s\<bar> \<ge> ACRO_RATE_TRIGGER b
             then emit Output_rate_pitch s else emit Output_stabilize_pitch s)
     | STABILIZE \<Rightarrow>
         emits [Output_manual_yaw, Output_manual_throttle, Control_nav_mixer,
                Output_stabilize_roll, Output_stabilize_pitch]
           (s\<lparr>nav_pitch := 0, nav_roll := 0\<rparr>)
     | SIMPLE \<Rightarrow>
         let s = s\<lparr>fbw_timer := fbw_timer s + 1\<rparr>;
             s = (if fbw_timer s > 4 then
                    let s = s\<lparr>fbw_timer := 0\<rparr>;
                        s = s\<lparr>current_loc := (current_loc s)\<lparr>lat := 0\<rparr>\<rparr>;
                        s = s\<lparr>current_loc := (current_loc s)\<lparr>lng := 0\<rparr>\<rparr>;
                        s = s\<lparr>next_WP := (next_WP s)\<lparr>lng := times_point4 i (rc_1_control_in s)\<rparr>\<rparr>;
                        s = s\<lparr>next_WP := (next_WP s)\<lparr>lat := - times_point4 i (rc_2_control_in s)\<rparr>\<rparr>;
                        s = s\<lparr>nav_bearing :=
                               get_bearing i (current_loc s) (next_WP s) + initial_simple_bearing s\<rparr>;
                        s = s\<lparr>nav_bearing := wrap_360 i (nav_bearing s)\<rparr>;
                        s = s\<lparr>wp_distance := get_distance i (current_loc s) (next_WP s)\<rparr>
                    in emits [Calc_bearing_error, Calc_waypoint_nav] s
                  else s)
         in emits [Output_manual_yaw, Output_manual_throttle, Fbw_nav_mixer,
                   Output_stabilize_roll, Output_stabilize_pitch] s
     | FBW \<Rightarrow>
         let s = s\<lparr>fbw_timer := fbw_timer s + 1\<rparr>;
             s = (if fbw_timer s > 10 then
                    let s = s\<lparr>fbw_timer := 0\<rparr>;
                        s = (if GPS_disabled s then
                               s\<lparr>home := (home s)\<lparr>lat := 0, lng := 0\<rparr>,
                                 current_loc := (current_loc s)\<lparr>lat := 0, lng := 0\<rparr>\<rparr>
                             else s);
                        s = s\<lparr>next_WP := (next_WP s)
                               \<lparr>lng := lng (home s) + c_div (rc_1_control_in s) 2\<rparr>\<rparr>;
                        s = s\<lparr>next_WP := (next_WP s)
                               \<lparr>lat := lat (home s) - c_div (rc_2_control_in s) 2\<rparr>\<rparr>
                    in emit Calc_loiter_nav s
                  else s)
         in emits [Output_manual_yaw, Output_manual_throttle, Fbw_nav_mixer,
                   Output_stabilize_roll, Output_stabilize_pitch] s
     | ALT_HOLD \<Rightarrow>
         let s = s\<lparr>nav_pitch := 0, nav_roll := 0\<rparr>;
             s = s\<lparr>next_WP := (next_WP s)\<lparr>alt := alt (home s) + rc_3_control_in s\<rparr>\<rparr>;
             s = s\<lparr>next_WP := (next_WP s)\<lparr>alt := max (alt (next_WP s)) 30\<rparr>\<rparr>
         in emits [Output_manual_yaw, Output_auto_throttle, Control_nav_mixer,
                   Output_stabilize_roll, Output_stabilize_pitch] s
     | RTL \<Rightarrow>
         emits [Auto_yaw, Output_auto_throttle, Control_nav_mixer,
                Output_stabilize_roll, Output_stabilize_pitch] s
     | LOITER \<Rightarrow>
         emits [Output_manual_yaw, Output_auto_throttle, Control_nav_mixer,
                Output_stabilize_roll, Output_stabilize_pitch] s
     | GCS_AUTO \<Rightarrow> s)"

section \<open>Scheduler\<close>

text \<open>\<open>super_slow_loop\<close>: the current log, when enabled, and the heartbeat message.\<close>

definition super_slow_loop :: "build \<Rightarrow> copter \<Rightarrow> copter" where
  "super_slow_loop b s =
    (let s = (if log_bitmask s AND MASK_LOG_CUR b \<noteq> 0 then emit (Log_Write ''Current'') s else s)
     in emit (Send_message MSG_HEARTBEAT) s)"

text \<open>
  \<open>slow_loop\<close>: a three-phase round robin on \<open>slow_loopCounter\<close>.
  \<open>read_control_switch()\<close> may change the mode: the mode it leaves is \<open>switch_mode\<close>.
\<close>

definition slow_loop :: "build \<Rightarrow> inputs \<Rightarrow> copter \<Rightarrow> copter" where
  "slow_loop b i s =
    (if slow_loopCounter s = 0 then
       let s = s\<lparr>slow_loopCounter := slow_loopCounter s + 1\<rparr>;
           s = s\<lparr>superslow_loopCounter := superslow_loopCounter s + 1\<rparr>
       in if superslow_loopCounter s > 1400 \<and> \<not> HIL_MODE_ATTITUDE b
             \<and> rc_3_control_in s = 0 \<and> compass_enabled s
          then (emit (Ext ''compass.save_offsets'') s)\<lparr>superslow_loopCounter := 0\<rparr>
          else s
     else if slow_loopCounter s = 1 then
       let s = s\<lparr>slow_loopCounter := slow_loopCounter s + 1\<rparr>;
           s = (emit (Ext ''read_control_switch'') s)\<lparr>control_mode := switch_mode i\<rparr>
       in if BATTERY_EVENT b then emit (Ext ''read_battery'') s else s
     else if slow_loopCounter s = 2 then
       let s = s\<lparr>slow_loopCounter := 0\<rparr>;
           s = emits [Ext ''update_events'', Ext ''update_motor_light''] s
       in if GCS_PROTOCOL_MAVLINK b then emit (Ext ''gcs.data_stream_send'') s
          else emit (Send_message MSG_LOCATION) s
     else s\<lparr>slow_loopCounter := 0\<rparr>)"

text \<open>
  \<open>medium_loop\<close>: the radio is read (the stick positions it leaves are
  \<open>rc_1_in\<close>, \<open>rc_2_in\<close>, \<open>rc_3_in\<close>), then one of five phases runs, chosen by
  \<open>medium_loopCounter\<close>, then the part that runs on every pass. In phase 3 the test of
  the source is \<open>g.log_bitmask & MASK_LOG_ATTITUDE_MED && (g.log_bitmask &
  MASK_LOG_ATTITUDE_FAST == 0)\<close>, where \<open>==\<close> binds tighter than \<open>&\<close>.
\<close>

definition medium_loop_phase :: "build \<Rightarrow> inputs \<Rightarrow> copter \<Rightarrow> copter" where
  "medium_loop_phase b i s =
    (if medium_loopCounter s = 0 then
       let s = s\<lparr>medium_loopCounter := medium_loopCounter s + 1\<rparr>;
           s = (if GPS_failure_counter s > 0 then update_GPS b i s
                else if GPS_failure_counter s = 0 then s\<lparr>GPS_disabled := True\<rparr>
                else s)
       in if compass_enabled s
          then emits [Ext ''compass.read'', Ext ''compass.calculate'', Ext ''compass.null_offsets''] s
          else s
     else if medium_loopCounter s = 1 then
       let s = s\<lparr>medium_loopCounter := medium_loopCounter s + 1\<rparr>;
           s = s\<lparr>dTnav2 := millis i 8 - nav2_loopTimer s\<rparr>;
           s = s\<lparr>nav2_loopTimer := millis i 9\<rparr>
       in if control_mode s = SIMPLE then s
          else if control_mode s = FBW then s
          else
            let s = (if new_data (g_gps s) then
                       (emit Navigate (s\<lparr>g_gps := (g_gps s)\<lparr>new_data := False\<rparr>\<rparr>))
                         \<lparr>wp_distance := navigate_wp_distance i\<rparr>
                     else s)
            in if wp_distance s < 800 then emit Calc_loiter_nav s
               else emit Calc_waypoint_nav s
     else if medium_loopCounter s = 2 then
       let s = s\<lparr>medium_loopCounter := medium_loopCounter s + 1\<rparr>;
           s = update_alt b i s
       in if control_mode s = AUTO \<or> control_mode s = GCS_AUTO
          then emit (Ext ''update_commands'') s else s
     else if medium_loopCounter s = 3 then
       let s = s\<lparr>medium_loopCounter := medium_loopCounter s + 1\<rparr>;
           s = (if log_bitmask s AND MASK_LOG_ATTITUDE_MED b \<noteq> 0
                   \<and> log_bitmask s AND (if MASK_LOG_ATTITUDE_FAST b = 0 then 1 else 0) \<noteq> 0
                then emit (Log_Write ''Attitude'') s else s);
           s = (if \<not> HIL_MODE_ATTITUDE b \<and> log_bitmask s AND MASK_LOG_CTUN b \<noteq> 0
                then emit (Log_Write ''Control_Tuning'') s else s);
           s = (if log_bitmask s AND MASK_LOG_NTUN b \<noteq> 0
                then emit (Log_Write ''Nav_Tuning'') s else s);
           s = (if log_bitmask s AND MASK_LOG_GPS b \<noteq> 0 \<and> home_is_set s
                then emit (Log_Write ''GPS'') s else s)
       in emit (Send_message MSG_ATTITUDE) s
     else if medium_loopCounter s = 4 then
       let s = s\<lparr>medium_loopCounter := 0\<rparr>;
           s = (if current_enabled s then emit (Ext ''read_current'') s else s);
           s = emits [Ext ''read_trim_switch'', Ext ''arm_motors''] s
       in slow_loop b i s
     else s\<lparr>medium_loopCounter := 0\<rparr>)"

definition medium_loop :: "build \<Rightarrow> inputs \<Rightarrow> copter \<Rightarrow> copter" where
  "medium_loop b i s0 =
    (let s = (emit (Ext ''read_radio'') s0)
               \<lparr>rc_1_control_in := rc_1_in i, rc_2_control_in := rc_2_in i,
                 rc_3_control_in := rc_3_in i\<rparr>;
         s = emit (Ext ''update_trig'') s;
         s = medium_loop_phase b i s;
         s = emit Calc_bearing_error s;
         s = (if log_bitmask s AND MASK_LOG_ATTITUDE_FAST b \<noteq> 0
              then emit (Log_Write ''Attitude'') s else s);
         s = (if \<not> HIL_MODE_ATTITUDE b \<and> log_bitmask s AND MASK_LOG_RAW b \<noteq> 0
              then emit (Log_Write ''Raw'') s else s);
         s = (if GCS_PROTOCOL_6 b then emit (Ext ''readgcsinput'') s else s);
         s = (if ENABLE_CAM b then emit (Ext ''camera_stabilization'') s else s)
     in emit (Ext ''gcs.update'') s)"

text \<open>
  \<open>fast_loop\<close>: attitude estimate, the largest observed period, mode evaluation,
  actuator output.
\<close>

definition fast_loop :: "build \<Rightarrow> inputs \<Rightarrow> copter \<Rightarrow> copter" where
  "fast_loop b i s =
    (let s = emit (Ext ''read_AHRS'') s;
         s = (if uint (delta_ms_fast_loop s) > G_Dt_max s
              then s\<lparr>G_Dt_max := uint (delta_ms_fast_loop s)\<rparr> else s);
         s = update_current_flight_mode b i s;
         s = emit Set_servos_4 s
     in if HIL_PROTOCOL_MAVLINK b then emit (Send_message MSG_RADIO_OUT) s else s)"

text \<open>
  \<open>loop\<close> polls the clock. Its two blocks are \<open>loop_fast\<close> and \<open>loop_medium\<close>; the
  clock reading of the k-th \<open>millis()\<close> call site is \<open>millis i k\<close>. What
  \<open>resetPerfData()\<close> writes is in another file and is not modelled.
\<close>

definition loop_fast :: "build \<Rightarrow> inputs \<Rightarrow> copter \<Rightarrow> copter" where
  "loop_fast b i s =
    (let s = s\<lparr>delta_ms_fast_loop := ucast (millis i 1 - fast_loopTimer s)\<rparr>;
         s = s\<lparr>fast_loopTimer := millis i 2\<rparr>;
         s = s\<lparr>mainLoop_count := mainLoop_count s + 1\<rparr>;
         s = fast_loop b i s
     in s\<lparr>fast_loopTimeStamp := millis i 3\<rparr>)"

definition loop_medium :: "build \<Rightarrow> inputs \<Rightarrow> copter \<Rightarrow> copter" where
  "loop_medium b i s =
    (let s = s\<lparr>delta_ms_medium_loop := ucast (millis i 5 - medium_loopTimer s)\<rparr>;
         s = s\<lparr>medium_loopTimer := millis i 6\<rparr>;
         s = medium_loop b i s;
         s = s\<lparr>counter_one_herz := counter_one_herz s + 1\<rparr>;
         s = (if counter_one_herz s = 50 then super_slow_loop b s else s)
     in if millis i 7 - perf_mon_timer s > 20000 \<and> mainLoop_count s \<noteq> 0 then
          let s = emit (Send_message MSG_PERF_REPORT) s;
              s = (if log_bitmask s AND MASK_LOG_PM b \<noteq> 0
                   then emit (Log_Write ''Performance'') s else s)
          in emit (Ext ''resetPerfData'') s
        else s)"

definition loop :: "build \<Rightarrow> inputs \<Rightarrow> copter \<Rightarrow> copter" where
  "loop b i s =
    (let s = (if millis i 0 - fast_loopTimer s > 9 then loop_fast b i s else s)
     in if millis i 4 - medium_loopTimer s > 19 then loop_medium b i s else s)"

section \<open>Runs of the control core\<close>

text \<open>Consecutive GPS updates, medium passes, altitude ticks and fast ticks, one input each.\<close>

fun feed_GPS :: "build \<Rightarrow> inputs list \<Rightarrow> copter \<Rightarrow> copter" where
  "feed_GPS b [] s = s"
| "feed_GPS b (i # is) s = feed_GPS b is (update_GPS b i s)"


fun run_loop_medium :: "build \<Rightarrow> inputs list \<Rightarrow> copter \<Rightarrow> copter" where
  "run_loop_medium b [] s = s"
| "run_loop_medium b (i # is) s = run_loop_medium b is (loop_medium b i s)"

fun run_fast :: "build \<Rightarrow> inputs list \<Rightarrow> copter \<Rightarrow> copter" where
  "run_fast b [] s = s"
| "run_fast b (i # is) s = run_fast b is (fast_loop b i s)"

text \<open>The source chosen at each of a series of altitude ticks.\<close>

fun alt_sources :: "build \<Rightarrow> inputs list \<Rightarrow> copter \<Rightarrow> AltSensor list" where
  "alt_sources b [] s = []"
| "alt_sources b (i # is) s =
     (let s' = update_alt b i s in altitude_sensor s' # alt_sources b is s')"

text \<open>How often consecutive elements of a list differ.\<close>

fun flips :: "'a list \<Rightarrow> nat" where
  "flips (x # y # xs) = (if x \<noteq> y then 1 else 0) + flips (y # xs)"
| "flips xs = 0"

text \<open>The calls made between two states, and how often a call occurs in a trace.\<close>

definition new_calls :: "copter \<Rightarrow> copter \<Rightarrow> call list" where
  "new_calls s s' = drop (length (trace s)) (trace s')"

definition occurrences :: "call \<Rightarrow> call list \<Rightarrow> nat" where
  "occurrences c cs = length (filter (\<lambda>x. x = c) cs)"

text \<open>\<open>before a c cs\<close>: \<open>a\<close> occurs in \<open>cs\<close>, and \<open>c\<close> occurs after its first occurrence.\<close>

definition before :: "call \<Rightarrow> call \<Rightarrow> call list \<Rightarrow> bool" where
  "before a c cs = (c \<in> set (dropWhile (\<lambda>x. x \<noteq> a) cs))"

text \<open>A build and inputs for concrete runs: real sensors, MAVLink ground station.\<close>

definition flight_build :: build where
  "flight_build = \<lparr>HIL_MODE_ATTITUDE = False, HIL_PROTOCOL_MAVLINK = False,
     GCS_PROTOCOL_MAVLINK = True, GCS_PROTOCOL_6 = False, BATTERY_EVENT = False,
     ENABLE_CAM = False, ACRO_RATE_TRIGGER = 4200, MASK_LOG_ATTITUDE_FAST = 1,
     MASK_LOG_ATTITUDE_MED = 2, MASK_LOG_GPS = 4, MASK_LOG_PM = 8, MASK_LOG_CTUN = 16,
     MASK_LOG_NTUN = 32, MASK_LOG_RAW = 128, MASK_LOG_CMD = 256, MASK_LOG_CUR = 512\<rparr>"

definition quiet :: inputs where
  "quiet = \<lparr>millis = (\<lambda>k. 0), gps_in = no_gps, barometer_in = 0, sonar_in = 0,
     rc_1_in = 0, rc_2_in = 0, rc_3_in = 0, navigate_wp_distance = 0,
     switch_mode = STABILIZE, get_bearing = (\<lambda>a c. 0), get_distance = (\<lambda>a c. 0),
     wrap_360 = (\<lambda>x. x mod 36000), times_point4 = (\<lambda>x. c_div (x * 4) 10)\<rparr>"

text \<open>A pass has a new valid fix when the driver reports new data and a lock.\<close>

definition valid_fix :: "inputs \<Rightarrow> bool" where
  "valid_fix i = (new_data (gps_in i) \<and> gps_fix (gps_in i))"

definition fix_loc :: "inputs \<Rightarrow> Location" where
  "fix_loc i = \<lparr>lat = latitude (gps_in i), lng = longitude (gps_in i), alt = altitude (gps_in i)\<rparr>"

definition fix_at :: "int \<Rightarrow> int \<Rightarrow> int \<Rightarrow> inputs" where
  "fix_at la lo al = quiet\<lparr>gps_in :=
     \<lparr>new_data = True, gps_fix = True, latitude = la, longitude = lo, altitude = al\<rparr>\<rparr>"


section \<open>The X-Plane bridge\<close>

text \<open>
  The members of \<open>SITL::XPlane\<close> that \<open>select_data\<close> and \<open>receive_data\<close> read or write,
  with the widths the source gives its locals of the same kind (\<open>uint32_t\<close> clock values,
  \<open>uint64_t\<close> masks and microsecond times). Sensor fields are floats written by
  procedures of the base class: what happens to them is recorded as calls in
  \<open>sim_trace\<close>. Console output (\<open>printf\<close>) is left out.
\<close>

datatype sim_call =
    Socket_recv "32 word"                   \<comment> \<open>\<open>socket_in.recv\<close> with its wait time\<close>
  | Socket_connect
  | Send_select string nat "32 word list"   \<comment> \<open>marker, slots filled, the eight slots sent\<close>
  | Apply_record "8 word" "8 word list"     \<comment> \<open>the \<open>switch\<close> on a record's code, on its 36 bytes\<close>
  | Sim string                              \<comment> \<open>any other procedure\<close>

record xplane =
  connected :: bool
  unselected_mask :: "64 word"
  xplane_frame_time :: "32 word"
  last_data_time_ms :: "32 word"
  time_base_us :: "64 word"
  time_now_us :: "64 word"
  frame_time_us :: "64 word"
  data_count :: "32 word"
  frame_count :: "32 word"
  sim_trace :: "sim_call list"

text \<open>
  The enumeration of data codes is in \<open>SIM_XPlane.h\<close>, which is not among the sources:
  the code of \<open>Times\<close> and the codes that make up \<open>required_mask\<close> are parameters.
\<close>

record sim_consts =
  Times_code :: "8 word"
  required_codes :: "nat list"

definition required_mask :: "sim_consts \<Rightarrow> 64 word" where
  "required_mask c = foldr (\<lambda>k m. push_bit k 1 OR m) (required_codes c) 0"

text \<open>
  One call of \<open>receive_data\<close> sees: the clock at entry, at the label \<open>failed\<close> and at the
  end; what \<open>recv\<close> returned (\<open>None\<close> when it returned -1); the microseconds that the
  float in a \<open>Times\<close> record stands for; and whether the float test for a home reset holds.
\<close>

record sim_inputs =
  now_ms :: "32 word"
  recv_pkt :: "8 word list option"
  failed_ms :: "32 word"
  end_ms :: "32 word"
  decode_tus :: "8 word list \<Rightarrow> 64 word"
  home_moved :: bool

definition sim_emit :: "sim_call list \<Rightarrow> xplane \<Rightarrow> xplane" where
  "sim_emit cs s = s\<lparr>sim_trace := sim_trace s @ cs\<rparr>"

text \<open>
  The loop \<open>for (i=0; i<64 && count<8; i++)\<close> of \<open>select_data\<close>, which writes the
  codes of the set bits of a mask into the slots of the request.
\<close>

function select_loop :: "64 word \<Rightarrow> nat \<Rightarrow> nat \<Rightarrow> 32 word list \<Rightarrow> nat \<times> 32 word list" where
  "select_loop msk i count data =
     (if i < 64 \<and> count < 8 then
        (if push_bit i 1 AND msk \<noteq> 0
         then select_loop msk (i + 1) (count + 1) (data[count := of_nat i])
         else select_loop msk (i + 1) count data)
      else (count, data))"
  by pat_completeness auto
termination
  by (relation "measure (\<lambda>(msk, i, count, data). 64 - i)") auto

definition select_data :: "64 word \<Rightarrow> 64 word \<Rightarrow> xplane \<Rightarrow> xplane" where
  "select_data usel_mask sel_mask s =
    (let (count, dsel) = select_loop sel_mask 0 0 (replicate 8 0);
         s = (if count \<noteq> 0 then sim_emit [Send_select ''DSEL0'' count dsel] s else s);
         usel_mask = usel_mask AND NOT (unselected_mask s);
         s = s\<lparr>unselected_mask := unselected_mask s OR usel_mask\<rparr>;
         (count, usel) = select_loop usel_mask 0 0 (replicate 8 0)
     in if count \<noteq> 0 then sim_emit [Send_select ''USEL0'' count usel] s else s)"

text \<open>The handling of one 36-byte record: its code is its first byte.\<close>

definition handle_record :: "sim_consts \<Rightarrow> sim_inputs \<Rightarrow> 8 word list \<Rightarrow> xplane \<Rightarrow> xplane" where
  "handle_record c i r s =
    (if hd r = Times_code c then
       let tus = decode_tus i r;
           s = (if tus + time_base_us s \<le> time_now_us s
                then s\<lparr>time_base_us := time_now_us s - tus\<rparr> else s)
       in s\<lparr>time_now_us := time_base_us s + tus\<rparr>
     else sim_emit [Apply_record (hd r) r] s)"

text \<open>The loop \<open>while (len >= pkt_len)\<close> over the records that follow the 5-byte marker.\<close>

function parse_records ::
  "sim_consts \<Rightarrow> sim_inputs \<Rightarrow> 8 word list \<Rightarrow> xplane \<Rightarrow> 64 word \<Rightarrow> xplane \<times> 64 word" where
  "parse_records c i p s data_mask =
     (if length p \<ge> 36 then
        let code = hd p;
            data_mask = (if code < 64 then data_mask OR push_bit (unat code) 1 else data_mask);
            s = handle_record c i (take 36 p) s
        in parse_records c i (drop 36 p) s data_mask
      else (s, data_mask))"
  by pat_completeness auto
termination
  by (relation "measure (\<lambda>(c, i, p, s, m). length p)") auto

text \<open>The code after the label \<open>failed\<close>, given the clock reading there.\<close>

definition failed :: "32 word \<Rightarrow> xplane \<Rightarrow> xplane \<times> bool" where
  "failed ms s =
    (if ms - last_data_time_ms s > 200 then (s, False)
     else
       let s = s\<lparr>frame_time_us := 1000\<rparr>;
           s = s\<lparr>time_now_us := time_now_us s + frame_time_us s\<rparr>;
           s = sim_emit [Sim ''extrapolate_sensors'', Sim ''update_position'',
                         Sim ''time_advance'', Sim ''update_mag_field_bf''] s
       in (s\<lparr>frame_count := frame_count s + 1\<rparr>, False))"

definition DATA :: "8 word list" where
  "DATA = [68, 65, 84, 65]"

definition receive_data :: "sim_consts \<Rightarrow> sim_inputs \<Rightarrow> xplane \<Rightarrow> xplane \<times> bool" where
  "receive_data c i s0 =
    (let wait_time_ms =
           (if xplane_frame_time s0 > 1
               \<and> now_ms i + 1 \<ge> last_data_time_ms s0 + xplane_frame_time s0
            then 10 else 1);
         s = sim_emit [Socket_recv wait_time_ms] s0;
         pkt = (case recv_pkt i of None \<Rightarrow> [] | Some bs \<Rightarrow> take 10000 bs);
         len = (case recv_pkt i of None \<Rightarrow> - 1 | Some bs \<Rightarrow> int (length pkt))
     in if len < 36 + 5 \<or> take 4 pkt \<noteq> DATA then failed (failed_ms i) s
        else
          let s = (if \<not> connected s
                   then (sim_emit [Socket_connect] s)\<lparr>connected := True\<rparr> else s);
              (s, data_mask) = parse_records c i (drop 5 pkt) s 0;
              usel = (data_mask AND NOT (required_mask c)) AND NOT (unselected_mask s);
              sel = required_mask c AND NOT data_mask
          in if data_mask \<noteq> required_mask c \<and> (usel \<noteq> 0 \<or> sel \<noteq> 0) then
               failed (failed_ms i) (select_data usel sel s)
             else
               let s = sim_emit [Sim ''update_position'', Sim ''time_advance''] s;
                   s = (if home_moved i
                        then sim_emit [Sim ''home_reset'', Sim ''update_position'',
                                       Sim ''time_advance''] s
                        else s);
                   s = sim_emit [Sim ''update_mag_field_bf''] s;
                   s = (if now_ms i > last_data_time_ms s \<and> now_ms i - last_data_time_ms s < 100
                        then s\<lparr>xplane_frame_time := now_ms i - last_data_time_ms s\<rparr> else s);
                   s = s\<lparr>last_data_time_ms := end_ms i\<rparr>;
                   s = s\<lparr>data_count := data_count s + 1\<rparr>
               in (s\<lparr>frame_count := frame_count s + 1\<rparr>, True))"

text \<open>A packet that \<open>receive_data\<close> does not take for data: none, a short one, or another marker.\<close>

definition malformed :: "8 word list option \<Rightarrow> bool" where
  "malformed r = (case r of None \<Rightarrow> True | Some bs \<Rightarrow> length bs < 41 \<or> take 4 bs \<noteq> DATA)"

definition is_Apply :: "sim_call \<Rightarrow> bool" where
  "is_Apply x = (case x of Apply_record k r \<Rightarrow> True | _ \<Rightarrow> False)"



definition new_sim_calls :: "xplane \<Rightarrow> xplane \<Rightarrow> sim_call list" where
  "new_sim_calls s s' = drop (length (sim_trace s)) (sim_trace s')"

definition sim0 :: xplane where
  "sim0 = \<lparr>connected = False, unselected_mask = 0, xplane_frame_time = 0,
     last_data_time_ms = 0, time_base_us = 0, time_now_us = 0, frame_time_us = 0,
     data_count = 0, frame_count = 0, sim_trace = []\<rparr>"

text \<open>The two variables of GPS health, read together.\<close>

definition gps_health :: "copter \<Rightarrow> 8 word \<times> bool" where
  "gps_health s = (GPS_failure_counter s, GPS_disabled s)"

text \<open>Inputs with given barometer and sonar readings.\<close>

definition reading :: "int \<Rightarrow> int \<Rightarrow> inputs" where
  "reading baro sonar = quiet\<lparr>barometer_in := baro, sonar_in := sonar\<rparr>"

text \<open>The source that the thresholds of \<open>update_alt\<close> select for a pair of readings.\<close>

definition chosen_source :: "int \<Rightarrow> int \<Rightarrow> AltSensor" where
  "chosen_source baro sonar = (if baro < 550 \<and> sonar \<le> 600 then SONAR else BARO)"

text \<open>How often a call has been made so far.\<close>

definition calls_of :: "call \<Rightarrow> copter \<Rightarrow> nat" where
  "calls_of c s = occurrences c (trace s)"

text \<open>The distance that the navigation phase tests: the one \<open>navigate()\<close> leaves when there
  is new GPS data, the stored one otherwise.\<close>

definition tested_distance :: "inputs \<Rightarrow> copter \<Rightarrow> int" where
  "tested_distance i s = (if new_data (g_gps s) then navigate_wp_distance i else wp_distance s)"

definition navigating :: "copter \<Rightarrow> bool" where
  "navigating s = (control_mode s \<noteq> SIMPLE \<and> control_mode s \<noteq> FBW)"


text \<open>A packet of eight bytes: the marker of a data packet, and too little after it.\<close>

definition short_packet :: sim_inputs where
  "short_packet = \<lparr>now_ms = 1000, recv_pkt = Some [68, 65, 84, 65, 48, 1, 2, 3],
     failed_ms = 1001, end_ms = 1002, decode_tus = (\<lambda>r. 0), home_moved = False\<rparr>"

section \<open>Ground start\<close>

lemma update_GPS_countdown:
  assumes "valid_fix i" and "1 < ground_start_count s"
  shows "ground_start_count (update_GPS b i s) = ground_start_count s - 1"
    and "home (update_GPS b i s) = home s"
    and "home_is_set (update_GPS b i s) = home_is_set s"
    and "lat (current_loc (update_GPS b i s)) = latitude (gps_in i)"
proof -
  have ne: "ground_start_count s \<noteq> 1"
    using assms(2) by auto
  show "ground_start_count (update_GPS b i s) = ground_start_count s - 1"
    using assms ne by (simp add: update_GPS_def valid_fix_def emit_def init_home_def Let_def)
  show "home (update_GPS b i s) = home s"
    using assms ne by (simp add: update_GPS_def valid_fix_def emit_def init_home_def Let_def)
  show "home_is_set (update_GPS b i s) = home_is_set s"
    using assms ne by (simp add: update_GPS_def valid_fix_def emit_def init_home_def Let_def)
  show "lat (current_loc (update_GPS b i s)) = latitude (gps_in i)"
    using assms ne by (simp add: update_GPS_def valid_fix_def emit_def init_home_def Let_def)
qed

lemma update_GPS_latch:
  assumes "valid_fix i" and "ground_start_count s = 1" and "lat (current_loc s) \<noteq> 0"
  shows "ground_start_count (update_GPS b i s) = 0"
    and "home (update_GPS b i s) = fix_loc i"
    and "home_is_set (update_GPS b i s)"
    and "alt (current_loc (update_GPS b i s)) = altitude (gps_in i)"
  using assms
  by (simp_all add: update_GPS_def valid_fix_def fix_loc_def emit_def init_home_def Let_def)

lemma update_GPS_bad_loc:
  assumes "valid_fix i" and "ground_start_count s = 1" and "lat (current_loc s) = 0"
  shows "ground_start_count (update_GPS b i s) = 5"
    and "home (update_GPS b i s) = home s"
    and "home_is_set (update_GPS b i s) = home_is_set s"
  using assms by (simp_all add: update_GPS_def valid_fix_def emit_def init_home_def Let_def)

lemma four_fixes_countdown:
  assumes "ground_start_count s = 5"
    and "valid_fix i1" and "valid_fix i2" and "valid_fix i3" and "valid_fix i4"
  shows "ground_start_count (feed_GPS b [i1, i2, i3, i4] s) = 1"
    and "lat (current_loc (feed_GPS b [i1, i2, i3, i4] s)) = latitude (gps_in i4)"
    and "home (feed_GPS b [i1, i2, i3, i4] s) = home s"
    and "home_is_set (feed_GPS b [i1, i2, i3, i4] s) = home_is_set s"
proof -
  let ?s1 = "update_GPS b i1 s"
  let ?s2 = "update_GPS b i2 ?s1"
  let ?s3 = "update_GPS b i3 ?s2"
  have c1: "ground_start_count ?s1 = 4"
    using update_GPS_countdown(1) [of i1 s b] assms by simp
  have c2: "ground_start_count ?s2 = 3"
    using update_GPS_countdown(1) [of i2 ?s1 b] assms c1 by simp
  have c3: "ground_start_count ?s3 = 2"
    using update_GPS_countdown(1) [of i3 ?s2 b] assms c2 by simp
  have g1: "1 < ground_start_count s" using assms by simp
  have g2: "1 < ground_start_count ?s1" using c1 by simp
  have g3: "1 < ground_start_count ?s2" using c2 by simp
  have g4: "1 < ground_start_count ?s3" using c3 by simp
  show "ground_start_count (feed_GPS b [i1, i2, i3, i4] s) = 1"
    using update_GPS_countdown(1) [OF assms(5) g4, of b] c3 by simp
  show "lat (current_loc (feed_GPS b [i1, i2, i3, i4] s)) = latitude (gps_in i4)"
    using update_GPS_countdown(4) [OF assms(5) g4, of b] by simp
  show "home (feed_GPS b [i1, i2, i3, i4] s) = home s"
    using update_GPS_countdown(2) [OF assms(2) g1, of b]
      update_GPS_countdown(2) [OF assms(3) g2] update_GPS_countdown(2) [OF assms(4) g3]
      update_GPS_countdown(2) [OF assms(5) g4] by simp
  show "home_is_set (feed_GPS b [i1, i2, i3, i4] s) = home_is_set s"
    using update_GPS_countdown(3) [OF assms(2) g1, of b]
      update_GPS_countdown(3) [OF assms(3) g2] update_GPS_countdown(3) [OF assms(4) g3]
      update_GPS_countdown(3) [OF assms(5) g4] by simp
qed

lemma feed_GPS_snoc: "feed_GPS b (is @ [i]) s = update_GPS b i (feed_GPS b is s)"
  by (induction "is" arbitrary: s) simp_all

lemma valid_fix_at [simp]: "valid_fix (fix_at la lo al)"
  by (simp add: valid_fix_def fix_at_def)

lemma fix_loc_at [simp]: "fix_loc (fix_at la lo al) = \<lparr>lat = la, lng = lo, alt = al\<rparr>"
  by (simp add: fix_loc_def fix_at_def)

lemma gps_in_fix_at [simp]:
  "latitude (gps_in (fix_at la lo al)) = la"
  "longitude (gps_in (fix_at la lo al)) = lo"
  "altitude (gps_in (fix_at la lo al)) = al"
  by (simp_all add: fix_at_def)

lemma init_copter_fields [simp]:
  "ground_start_count init_copter = 5"
  "GPS_failure_counter init_copter = 3"
  "GPS_disabled init_copter = False"
  "medium_loopCounter init_copter = 0"
  "counter_one_herz init_copter = 0"
  "fbw_timer init_copter = 0"
  "home_is_set init_copter = False"
  "trace init_copter = []"
  by (simp_all add: init_copter_def)

text \<open>
  The ground start as \<open>update_GPS\<close> performs it. From \<open>ground_start_count = 5\<close>, five
  consecutive valid fixes with a non-zero latitude latch \<open>home\<close> with the latitude,
  longitude and altitude of the fifth fix and leave \<open>ground_start_count = 0\<close>. At
  countdown 1 the test for a bad location reads the stored \<open>current_loc.lat\<close>, which
  the previous fix left there, and the incoming fix is copied into \<open>current_loc\<close> only
  afterwards.
\<close>

lemma ground_start_as_written:
  assumes "ground_start_count s = 5"
    and "valid_fix i1 \<and> latitude (gps_in i1) \<noteq> 0"
    and "valid_fix i2 \<and> latitude (gps_in i2) \<noteq> 0"
    and "valid_fix i3 \<and> latitude (gps_in i3) \<noteq> 0"
    and "valid_fix i4 \<and> latitude (gps_in i4) \<noteq> 0"
    and "valid_fix i5 \<and> latitude (gps_in i5) \<noteq> 0"
    and "valid_fix j" and "ground_start_count t = 1"
  shows "home (feed_GPS b [i1, i2, i3, i4, i5] s) = fix_loc i5
       \<and> home_is_set (feed_GPS b [i1, i2, i3, i4, i5] s)
       \<and> alt (current_loc (feed_GPS b [i1, i2, i3, i4, i5] s)) = altitude (gps_in i5)
       \<and> ground_start_count (feed_GPS b [i1, i2, i3, i4, i5] s) = 0
       \<and> (if lat (current_loc t) = 0
          then ground_start_count (update_GPS b j t) = 5
             \<and> home (update_GPS b j t) = home t
             \<and> home_is_set (update_GPS b j t) = home_is_set t
          else ground_start_count (update_GPS b j t) = 0
             \<and> home (update_GPS b j t) = fix_loc j
             \<and> home_is_set (update_GPS b j t))"
proof -
  let ?s4 = "feed_GPS b [i1, i2, i3, i4] s"
  have four: "ground_start_count ?s4 = 1" "lat (current_loc ?s4) \<noteq> 0"
    using four_fixes_countdown(1,2) [of s i1 i2 i3 i4 b] assms by simp_all
  have five: "feed_GPS b [i1, i2, i3, i4, i5] s = update_GPS b i5 ?s4"
    using feed_GPS_snoc [of b "[i1, i2, i3, i4]" i5 s] by simp
  have v5: "valid_fix i5" using assms by simp
  have A: "home (update_GPS b i5 ?s4) = fix_loc i5" "home_is_set (update_GPS b i5 ?s4)"
      "alt (current_loc (update_GPS b i5 ?s4)) = altitude (gps_in i5)"
      "ground_start_count (update_GPS b i5 ?s4) = 0"
    using update_GPS_latch [OF v5 four, of b] by simp_all
  have B: "lat (current_loc t) = 0 \<Longrightarrow> ground_start_count (update_GPS b j t) = 5
             \<and> home (update_GPS b j t) = home t
             \<and> home_is_set (update_GPS b j t) = home_is_set t"
    using update_GPS_bad_loc [OF assms(7,8), of b] by simp
  have C: "lat (current_loc t) \<noteq> 0 \<Longrightarrow> ground_start_count (update_GPS b j t) = 0
             \<and> home (update_GPS b j t) = fix_loc j
             \<and> home_is_set (update_GPS b j t)"
    using update_GPS_latch [OF assms(7,8), of b] by simp
  show ?thesis
    unfolding five using A B C by simp
qed

text \<open>
  C1. A zero-coordinate fix at countdown 1 should reset the countdown to 5 without
  setting \<open>home\<close>. In the code it does not: after four valid non-zero fixes the countdown
  is 1, and a fifth valid fix that reports the zero coordinate is latched as \<open>home\<close>,
  with the countdown going to 0. The test looks one fix back: when the fourth fix is
  the zero one, a healthy fifth fix is refused and the countdown goes back to 5.
\<close>

theorem zero_fix_at_countdown_one_latches_home:
  "ground_start_count (feed_GPS flight_build
      [fix_at 1 2 3, fix_at 4 5 6, fix_at 7 8 9, fix_at 10 11 12] init_copter) = 1
   \<and> ground_start_count (feed_GPS flight_build
      [fix_at 1 2 3, fix_at 4 5 6, fix_at 7 8 9, fix_at 10 11 12, fix_at 0 0 15] init_copter) = 0
   \<and> home_is_set (feed_GPS flight_build
      [fix_at 1 2 3, fix_at 4 5 6, fix_at 7 8 9, fix_at 10 11 12, fix_at 0 0 15] init_copter)
   \<and> home (feed_GPS flight_build
      [fix_at 1 2 3, fix_at 4 5 6, fix_at 7 8 9, fix_at 10 11 12, fix_at 0 0 15] init_copter)
     = \<lparr>lat = 0, lng = 0, alt = 15\<rparr>
   \<and> ground_start_count (feed_GPS flight_build
      [fix_at 1 2 3, fix_at 4 5 6, fix_at 7 8 9, fix_at 0 0 12, fix_at 13 14 15] init_copter) = 5
   \<and> \<not> home_is_set (feed_GPS flight_build
      [fix_at 1 2 3, fix_at 4 5 6, fix_at 7 8 9, fix_at 0 0 12, fix_at 13 14 15] init_copter)"
proof -
  let ?s4 = "feed_GPS flight_build
      [fix_at 1 2 3, fix_at 4 5 6, fix_at 7 8 9, fix_at 10 11 12] init_copter"
  have four: "ground_start_count ?s4 = 1" "lat (current_loc ?s4) \<noteq> 0"
    using four_fixes_countdown(1,2) [of init_copter "fix_at 1 2 3" "fix_at 4 5 6" "fix_at 7 8 9"
        "fix_at 10 11 12" flight_build]
    by simp_all
  have five: "feed_GPS flight_build
      [fix_at 1 2 3, fix_at 4 5 6, fix_at 7 8 9, fix_at 10 11 12, fix_at 0 0 15] init_copter
      = update_GPS flight_build (fix_at 0 0 15) ?s4"
    using feed_GPS_snoc [of flight_build
        "[fix_at 1 2 3, fix_at 4 5 6, fix_at 7 8 9, fix_at 10 11 12]" "fix_at 0 0 15" init_copter]
    by simp
  let ?t4 = "feed_GPS flight_build
      [fix_at 1 2 3, fix_at 4 5 6, fix_at 7 8 9, fix_at 0 0 12] init_copter"
  have stale: "ground_start_count ?t4 = 1" "lat (current_loc ?t4) = 0"
    using four_fixes_countdown(1,2) [of init_copter "fix_at 1 2 3" "fix_at 4 5 6" "fix_at 7 8 9"
        "fix_at 0 0 12" flight_build]
    by simp_all
  have unset: "\<not> home_is_set ?t4"
    using four_fixes_countdown(4) [of init_copter "fix_at 1 2 3" "fix_at 4 5 6" "fix_at 7 8 9"
        "fix_at 0 0 12" flight_build]
    by simp
  have refused: "feed_GPS flight_build
      [fix_at 1 2 3, fix_at 4 5 6, fix_at 7 8 9, fix_at 0 0 12, fix_at 13 14 15] init_copter
      = update_GPS flight_build (fix_at 13 14 15) ?t4"
    using feed_GPS_snoc [of flight_build
        "[fix_at 1 2 3, fix_at 4 5 6, fix_at 7 8 9, fix_at 0 0 12]" "fix_at 13 14 15" init_copter]
    by simp
  have zero: "ground_start_count (update_GPS flight_build (fix_at 0 0 15) ?s4) = 0
      \<and> home_is_set (update_GPS flight_build (fix_at 0 0 15) ?s4)
      \<and> home (update_GPS flight_build (fix_at 0 0 15) ?s4) = \<lparr>lat = 0, lng = 0, alt = 15\<rparr>"
    using update_GPS_latch [where i = "fix_at 0 0 15" and b = flight_build, OF valid_fix_at four]
    by simp
  have good: "ground_start_count (update_GPS flight_build (fix_at 13 14 15) ?t4) = 5
      \<and> \<not> home_is_set (update_GPS flight_build (fix_at 13 14 15) ?t4)"
    using update_GPS_bad_loc [where i = "fix_at 13 14 15" and b = flight_build,
        OF valid_fix_at stale] unset
    by simp
  show ?thesis
    unfolding five refused using four(1) zero good by simp
qed

section \<open>GPS failure counter\<close>

lemma emit_frame [simp]:
  "gps_health (emit c s) = gps_health s"
  "medium_loopCounter (emit c s) = medium_loopCounter s"
  "gps_health (emits cs s) = gps_health s"
  "medium_loopCounter (emits cs s) = medium_loopCounter s"
  by (simp_all add: emit_def emits_def gps_health_def)















lemma gps_health_upd [simp]:
  "gps_health (s\<lparr>medium_loopCounter := a\<rparr>) = gps_health s"
  "gps_health (s\<lparr>dTnav2 := d\<rparr>) = gps_health s"
  "gps_health (s\<lparr>nav2_loopTimer := d\<rparr>) = gps_health s"
  "gps_health (s\<lparr>wp_distance := w\<rparr>) = gps_health s"
  "gps_health (s\<lparr>g_gps := g\<rparr>) = gps_health s"
  "gps_health (s\<lparr>rc_1_control_in := x, rc_2_control_in := y, rc_3_control_in := z\<rparr>) = gps_health s"
  by (simp_all add: gps_health_def)




lemma counter_upd [simp]:
  "GPS_failure_counter (s\<lparr>rc_1_control_in := x, rc_2_control_in := y, rc_3_control_in := z\<rparr>) = GPS_failure_counter s"
  "GPS_disabled (s\<lparr>rc_1_control_in := x, rc_2_control_in := y, rc_3_control_in := z\<rparr>) = GPS_disabled s"
  "medium_loopCounter (s\<lparr>rc_1_control_in := x, rc_2_control_in := y, rc_3_control_in := z\<rparr>) = medium_loopCounter s"
  "GPS_failure_counter (emit c s) = GPS_failure_counter s"
  "GPS_disabled (emit c s) = GPS_disabled s"
  by (simp_all add: emit_def)












lemma quiet_no_fix [simp]: "\<not> valid_fix quiet"
  by (simp add: valid_fix_def quiet_def no_gps_def)



section \<open>Altitude source\<close>

lemma update_alt_source:
  assumes "\<not> HIL_MODE_ATTITUDE b" and "sonar_enabled s"
  shows "altitude_sensor (update_alt b i s) = chosen_source (barometer_in i) (sonar_in i)"
  using assms by (simp add: update_alt_def chosen_source_def emit_def emits_def Let_def)

lemma update_alt_sonar_enabled [simp]:
  "sonar_enabled (update_alt b i s) = sonar_enabled s"
  by (simp add: update_alt_def emit_def emits_def Let_def
      if_distrib [of sonar_enabled] cong: if_cong split del: if_split) simp_all

lemma alt_sources_map:
  assumes "\<not> HIL_MODE_ATTITUDE b" and "sonar_enabled s"
  shows "alt_sources b is s = map (\<lambda>i. chosen_source (barometer_in i) (sonar_in i)) is"
  using assms(2)
  by (induction "is" arbitrary: s) (simp_all add: Let_def update_alt_source [OF assms(1)])

lemma flips_all_BARO:
  assumes "\<forall>x \<in> set xs. 600 < x"
  shows "flips (map (chosen_source c) xs) = 0"
  using assms
proof (induction xs rule: induct_list012)
  case (3 x y zs)
  then show ?case by (simp add: chosen_source_def)
qed simp_all

lemma flips_sorted_sweep:
  assumes "sorted xs"
  shows "flips (map (chosen_source c) xs) \<le> 1"
  using assms
proof (induction xs rule: induct_list012)
  case (3 x y zs)
  show ?case
  proof (cases "chosen_source c x = chosen_source c y")
    case True
    then show ?thesis using 3 by simp
  next
    case False
    then have "600 < y" using 3(3) by (auto simp: chosen_source_def split: if_splits)
    then have "\<forall>z \<in> set (y # zs). 600 < z" using 3(3) by auto
    then have "flips (map (chosen_source c) (y # zs)) = 0" by (rule flips_all_BARO)
    then show ?thesis by simp
  qed
qed simp_all

text \<open>
  C3 (as amended). On every altitude tick with sonar enabled (and not under
  \<open>HIL_MODE_ATTITUDE\<close>), \<open>SONAR\<close> is the chosen source exactly when the barometric
  altitude is below 550 and the sonar reading is at most 600; otherwise \<open>BARO\<close> is
  chosen. The choice depends on the two readings of the tick only: the source chosen
  on the previous tick is overwritten before it is read. With the barometric altitude
  fixed at 500, a non-decreasing series of sonar readings chooses \<open>SONAR\<close> for the
  readings up to 600 and \<open>BARO\<close> for the others, so the source flips at most once.
\<close>

theorem altitude_source_selection:
  assumes "\<not> HIL_MODE_ATTITUDE b" and "sonar_enabled s"
    and "\<forall>i \<in> set is. barometer_in i = 500" and "sorted (map sonar_in is)"
  shows "altitude_sensor (update_alt b i s)
           = (if barometer_in i < 550 \<and> sonar_in i \<le> 600 then SONAR else BARO)
       \<and> alt_sources b is s = map (\<lambda>i. if sonar_in i \<le> 600 then SONAR else BARO) is
       \<and> flips (alt_sources b is s) \<le> 1"
proof -
  have m: "alt_sources b is s = map (chosen_source 500) (map sonar_in is)"
    using alt_sources_map [OF assms(1,2), of "is"] assms(3) by simp
  have "flips (alt_sources b is s) \<le> 1"
    unfolding m using flips_sorted_sweep [OF assms(4)] .
  moreover have "alt_sources b is s = map (\<lambda>i. if sonar_in i \<le> 600 then SONAR else BARO) is"
    unfolding m by (simp add: chosen_source_def)
  ultimately show ?thesis
    using update_alt_source [OF assms(1,2), of i] by (simp add: chosen_source_def)
qed

lemma reading_simps [simp]:
  "barometer_in (reading baro sonar) = baro" "sonar_in (reading baro sonar) = sonar"
  by (simp_all add: reading_def)

lemma flight_build_simps [simp]:
  "\<not> HIL_MODE_ATTITUDE flight_build" "ACRO_RATE_TRIGGER flight_build = 4200"
  by (simp_all add: flight_build_def)

theorem altitude_source_selection_witness:
  "altitude_sensor (update_alt flight_build (reading 500 650) (init_copter\<lparr>sonar_enabled := True\<rparr>)) = BARO
   \<and> alt_sources flight_build [reading 500 0, reading 500 300, reading 500 600, reading 500 650]
        (init_copter\<lparr>sonar_enabled := True\<rparr>) = [SONAR, SONAR, SONAR, BARO]
   \<and> flips (alt_sources flight_build [reading 500 0, reading 500 300, reading 500 600, reading 500 650]
        (init_copter\<lparr>sonar_enabled := True\<rparr>)) \<le> 1"
  using altitude_source_selection [of flight_build "init_copter\<lparr>sonar_enabled := True\<rparr>"
      "[reading 500 0, reading 500 300, reading 500 600, reading 500 650]" "reading 500 650"]
  by simp

text \<open>
  The claim as stated fails: at a sonar reading of exactly 600, which is not below 600,
  \<open>SONAR\<close> is chosen; and the previous source has no influence, the source follows the
  readings in both directions at the same thresholds.
\<close>

theorem sonar_chosen_at_600:
  "altitude_sensor (update_alt flight_build (reading 500 600) (init_copter\<lparr>sonar_enabled := True\<rparr>)) = SONAR
   \<and> \<not> sonar_in (reading 500 600) < 600
   \<and> altitude_sensor (update_alt flight_build (reading 500 650)
        (init_copter\<lparr>sonar_enabled := True, altitude_sensor := SONAR\<rparr>)) = BARO
   \<and> altitude_sensor (update_alt flight_build (reading 500 599)
        (init_copter\<lparr>sonar_enabled := True, altitude_sensor := BARO\<rparr>)) = SONAR"
  using update_alt_source [of flight_build "init_copter\<lparr>sonar_enabled := True\<rparr>" "reading 500 600"]
    update_alt_source [of flight_build "init_copter\<lparr>sonar_enabled := True, altitude_sensor := SONAR\<rparr>" "reading 500 650"]
    update_alt_source [of flight_build "init_copter\<lparr>sonar_enabled := True, altitude_sensor := BARO\<rparr>" "reading 500 599"]
  by (simp add: chosen_source_def)

section \<open>Stabilization in the fast tier\<close>


lemma new_calls_append [simp]: "trace s' = trace s @ cs \<Longrightarrow> new_calls s s' = cs"
  by (simp add: new_calls_def)

lemma mode_trace:
  "trace (update_current_flight_mode b i s) = trace s @
     (case control_mode s of
        AUTO \<Rightarrow> [Auto_yaw, Control_nav_mixer, Output_stabilize_roll, Output_stabilize_pitch,
                 Output_auto_throttle]
      | ACRO \<Rightarrow> [Output_manual_yaw, Output_manual_throttle, Control_nav_mixer,
                 if \<bar>rc_1_control_in s\<bar> \<ge> ACRO_RATE_TRIGGER b then Output_rate_roll
                 else Output_stabilize_roll,
                 if \<bar>rc_2_control_in s\<bar> \<ge> ACRO_RATE_TRIGGER b then Output_rate_pitch
                 else Output_stabilize_pitch]
      | STABILIZE \<Rightarrow> [Output_manual_yaw, Output_manual_throttle, Control_nav_mixer,
                 Output_stabilize_roll, Output_stabilize_pitch]
      | SIMPLE \<Rightarrow> (if 4 < fbw_timer s + 1 then [Calc_bearing_error, Calc_waypoint_nav] else [])
                 @ [Output_manual_yaw, Output_manual_throttle, Fbw_nav_mixer,
                    Output_stabilize_roll, Output_stabilize_pitch]
      | FBW \<Rightarrow> (if 10 < fbw_timer s + 1 then [Calc_loiter_nav] else [])
                 @ [Output_manual_yaw, Output_manual_throttle, Fbw_nav_mixer,
                    Output_stabilize_roll, Output_stabilize_pitch]
      | ALT_HOLD \<Rightarrow> [Output_manual_yaw, Output_auto_throttle, Control_nav_mixer,
                 Output_stabilize_roll, Output_stabilize_pitch]
      | RTL \<Rightarrow> [Auto_yaw, Output_auto_throttle, Control_nav_mixer,
                 Output_stabilize_roll, Output_stabilize_pitch]
      | LOITER \<Rightarrow> [Output_manual_yaw, Output_auto_throttle, Control_nav_mixer,
                 Output_stabilize_roll, Output_stabilize_pitch]
      | GCS_AUTO \<Rightarrow> [])"
  by (cases "control_mode s")
     (simp_all add: update_current_flight_mode_def emit_def emits_def Let_def)

lemma fast_loop_trace:
  "trace (fast_loop b i s) = trace s @ [Ext ''read_AHRS'']
     @ new_calls s (update_current_flight_mode b i s)
     @ [Set_servos_4]
     @ (if HIL_PROTOCOL_MAVLINK b then [Send_message MSG_RADIO_OUT] else [])"
proof -
  let ?t = "(if uint (delta_ms_fast_loop s) > G_Dt_max s
              then (emit (Ext ''read_AHRS'') s)\<lparr>G_Dt_max := uint (delta_ms_fast_loop s)\<rparr>
              else emit (Ext ''read_AHRS'') s)"
  have t: "trace ?t = trace s @ [Ext ''read_AHRS'']" "control_mode ?t = control_mode s"
    "rc_1_control_in ?t = rc_1_control_in s" "rc_2_control_in ?t = rc_2_control_in s"
    "fbw_timer ?t = fbw_timer s"
    by (simp_all add: emit_def)
  have "trace (fast_loop b i s) = trace (update_current_flight_mode b i ?t) @ [Set_servos_4]
     @ (if HIL_PROTOCOL_MAVLINK b then [Send_message MSG_RADIO_OUT] else [])"
    by (simp add: fast_loop_def Let_def emit_def)
  then show ?thesis
    using mode_trace [of b i ?t] mode_trace [of b i s] t
    by (simp add: new_calls_def)
qed

lemma calls_of_update [simp]:
  "calls_of c (control_mode_update f0 s) = calls_of c s"
  "calls_of c (ground_start_count_update f1 s) = calls_of c s"
  "calls_of c (GPS_failure_counter_update f2 s) = calls_of c s"
  "calls_of c (GPS_disabled_update f3 s) = calls_of c s"
  "calls_of c (gps_fix_count_update f4 s) = calls_of c s"
  "calls_of c (g_gps_update f5 s) = calls_of c s"
  "calls_of c (home_update f6 s) = calls_of c s"
  "calls_of c (current_loc_update f7 s) = calls_of c s"
  "calls_of c (next_WP_update f8 s) = calls_of c s"
  "calls_of c (home_is_set_update f9 s) = calls_of c s"
  "calls_of c (nav_bearing_update f10 s) = calls_of c s"
  "calls_of c (nav_pitch_update f11 s) = calls_of c s"
  "calls_of c (nav_roll_update f12 s) = calls_of c s"
  "calls_of c (initial_simple_bearing_update f13 s) = calls_of c s"
  "calls_of c (wp_distance_update f14 s) = calls_of c s"
  "calls_of c (sonar_alt_update f15 s) = calls_of c s"
  "calls_of c (baro_alt_update f16 s) = calls_of c s"
  "calls_of c (altitude_sensor_update f17 s) = calls_of c s"
  "calls_of c (rc_1_control_in_update f18 s) = calls_of c s"
  "calls_of c (rc_2_control_in_update f19 s) = calls_of c s"
  "calls_of c (rc_3_control_in_update f20 s) = calls_of c s"
  "calls_of c (sonar_enabled_update f21 s) = calls_of c s"
  "calls_of c (compass_enabled_update f22 s) = calls_of c s"
  "calls_of c (current_enabled_update f23 s) = calls_of c s"
  "calls_of c (log_bitmask_update f24 s) = calls_of c s"
  "calls_of c (fast_loopTimer_update f25 s) = calls_of c s"
  "calls_of c (fast_loopTimeStamp_update f26 s) = calls_of c s"
  "calls_of c (delta_ms_fast_loop_update f27 s) = calls_of c s"
  "calls_of c (mainLoop_count_update f28 s) = calls_of c s"
  "calls_of c (G_Dt_max_update f29 s) = calls_of c s"
  "calls_of c (medium_loopTimer_update f30 s) = calls_of c s"
  "calls_of c (medium_loopCounter_update f31 s) = calls_of c s"
  "calls_of c (delta_ms_medium_loop_update f32 s) = calls_of c s"
  "calls_of c (slow_loopCounter_update f33 s) = calls_of c s"
  "calls_of c (superslow_loopCounter_update f34 s) = calls_of c s"
  "calls_of c (fbw_timer_update f35 s) = calls_of c s"
  "calls_of c (nav2_loopTimer_update f36 s) = calls_of c s"
  "calls_of c (dTnav2_update f37 s) = calls_of c s"
  "calls_of c (perf_mon_timer_update f38 s) = calls_of c s"
  "calls_of c (counter_one_herz_update f39 s) = calls_of c s"
  by (simp_all add: calls_of_def)

lemma calls_of_emit [simp]:
  "calls_of c (emit x s) = calls_of c s + (if x = c then 1 else 0)"
  "calls_of c (emits xs s) = calls_of c s + occurrences c xs"
  by (simp_all add: calls_of_def emit_def emits_def occurrences_def)

lemma occurrences_simps [simp]:
  "occurrences c [] = 0"
  "occurrences c (x # xs) = (if x = c then 1 else 0) + occurrences c xs"
  "occurrences c (xs @ ys) = occurrences c xs + occurrences c ys"
  by (simp_all add: occurrences_def)

lemma new_calls_fast_loop:
  "new_calls s (fast_loop b i s) = [Ext ''read_AHRS'']
     @ new_calls s (update_current_flight_mode b i s)
     @ [Set_servos_4]
     @ (if HIL_PROTOCOL_MAVLINK b then [Send_message MSG_RADIO_OUT] else [])"
  using fast_loop_trace [of b i s] by (simp add: new_calls_def)

lemmas new_calls_mode = new_calls_append [OF mode_trace]

text \<open>
  C4 (as amended). In every mode other than \<open>ACRO\<close> and \<open>GCS_AUTO\<close>, and for every pilot
  input, a pass of the fast loop calls \<open>output_stabilize_roll\<close>, then
  \<open>output_stabilize_pitch\<close>, and both before \<open>set_servos_4\<close>. In \<open>ACRO\<close> an axis is
  stabilized before \<open>set_servos_4\<close> exactly when the magnitude of its stick is below
  \<open>ACRO_RATE_TRIGGER\<close>; at or above it the axis gets the rate controller instead.
\<close>

theorem stabilization_before_output:
  assumes "cs = new_calls s (fast_loop b i s)"
  shows "(control_mode s \<noteq> ACRO \<and> control_mode s \<noteq> GCS_AUTO \<longrightarrow>
            before Output_stabilize_roll Output_stabilize_pitch cs
          \<and> before Output_stabilize_roll Set_servos_4 cs
          \<and> before Output_stabilize_pitch Set_servos_4 cs)
       \<and> (control_mode s = ACRO \<longrightarrow>
            (before Output_stabilize_roll Set_servos_4 cs
               \<longleftrightarrow> \<bar>rc_1_control_in s\<bar> < ACRO_RATE_TRIGGER b)
          \<and> (before Output_rate_roll Set_servos_4 cs
               \<longleftrightarrow> ACRO_RATE_TRIGGER b \<le> \<bar>rc_1_control_in s\<bar>)
          \<and> (before Output_stabilize_pitch Set_servos_4 cs
               \<longleftrightarrow> \<bar>rc_2_control_in s\<bar> < ACRO_RATE_TRIGGER b)
          \<and> (before Output_rate_pitch Set_servos_4 cs
               \<longleftrightarrow> ACRO_RATE_TRIGGER b \<le> \<bar>rc_2_control_in s\<bar>))"
  unfolding assms
  by (cases "control_mode s")
     (simp_all add: new_calls_fast_loop new_calls_mode before_def)

theorem stabilization_before_output_witness:
  "before Output_stabilize_roll Set_servos_4
     (new_calls init_copter (fast_loop flight_build quiet init_copter))
   \<and> before Output_stabilize_pitch Set_servos_4
     (new_calls init_copter (fast_loop flight_build quiet init_copter))
   \<and> before Output_stabilize_roll Set_servos_4
     (new_calls (init_copter\<lparr>control_mode := ACRO\<rparr>)
        (fast_loop flight_build quiet (init_copter\<lparr>control_mode := ACRO\<rparr>)))"
  using stabilization_before_output [of _ init_copter flight_build quiet, OF refl]
    stabilization_before_output [of _ "init_copter\<lparr>control_mode := ACRO\<rparr>" flight_build quiet,
      OF refl]
  by (simp add: init_copter_def flight_build_def)

text \<open>
  The claim as stated fails: in \<open>GCS_AUTO\<close> the fast loop goes from the attitude
  estimate straight to \<open>set_servos_4\<close>; and in \<open>ACRO\<close> with the roll stick at 4500 and a
  trigger of 4200, roll stabilization is not called.
\<close>

theorem modes_that_bypass_stabilization:
  "new_calls (init_copter\<lparr>control_mode := GCS_AUTO\<rparr>)
      (fast_loop flight_build quiet (init_copter\<lparr>control_mode := GCS_AUTO\<rparr>))
     = [Ext ''read_AHRS'', Set_servos_4]
   \<and> Output_stabilize_roll \<notin> set
       (new_calls (init_copter\<lparr>control_mode := ACRO, rc_1_control_in := 4500\<rparr>)
          (fast_loop flight_build quiet
             (init_copter\<lparr>control_mode := ACRO, rc_1_control_in := 4500\<rparr>)))"
  by (simp add: new_calls_fast_loop new_calls_mode flight_build_def)


section \<open>The SIMPLE-mode gate\<close>

lemma simple_tick:
  assumes "control_mode s = SIMPLE"
  shows "control_mode (fast_loop b i s) = SIMPLE"
    and "fbw_timer (fast_loop b i s) = (if 4 < fbw_timer s + 1 then 0 else fbw_timer s + 1)"
    and "calls_of Calc_waypoint_nav (fast_loop b i s)
           = calls_of Calc_waypoint_nav s + (if 4 < fbw_timer s + 1 then 1 else 0)"
proof -
  show "control_mode (fast_loop b i s) = SIMPLE"
    using assms
    by (simp add: fast_loop_def update_current_flight_mode_def emit_def emits_def Let_def)
  show "fbw_timer (fast_loop b i s) = (if 4 < fbw_timer s + 1 then 0 else fbw_timer s + 1)"
    using assms
    by (simp add: fast_loop_def update_current_flight_mode_def emit_def emits_def Let_def)
  show "calls_of Calc_waypoint_nav (fast_loop b i s)
           = calls_of Calc_waypoint_nav s + (if 4 < fbw_timer s + 1 then 1 else 0)"
    using assms fast_loop_trace [of b i s]
    by (simp add: calls_of_def new_calls_mode)
qed

lemma gate_opens_at_four:
  assumes "k < 5"
  shows "(4 < (of_nat k :: 8 word) + 1) = (k = 4)"
proof -
  have "k = 0 \<or> k = 1 \<or> k = 2 \<or> k = 3 \<or> k = 4"
    using assms by arith
  then show ?thesis by auto
qed

lemma simple_run:
  assumes "control_mode s = SIMPLE" and "fbw_timer s = of_nat k" and "k < 5"
  shows "fbw_timer (run_fast b is s) = of_nat ((k + length is) mod 5)
       \<and> calls_of Calc_waypoint_nav (run_fast b is s)
           = calls_of Calc_waypoint_nav s + (k + length is) div 5"
  using assms
proof (induction "is" arbitrary: s k)
  case Nil
  then show ?case by simp
next
  case (Cons i "is")
  let ?s = "fast_loop b i s"
  note tick = simple_tick [OF Cons.prems(1), of b i]
  note gate = gate_opens_at_four [OF Cons.prems(3)]
  show ?case
  proof (cases "k = 4")
    case True
    have t: "fbw_timer ?s = of_nat 0"
      using tick(2) gate True Cons.prems(2) by simp
    have "(4 + Suc (length is)) mod 5 = length is mod 5"
      "(4 + Suc (length is)) div 5 = Suc (length is div 5)"
      by presburger+
    then show ?thesis
      using Cons.IH [OF tick(1) t] tick(3) gate True Cons.prems(2) by simp
  next
    case False
    have t: "fbw_timer ?s = of_nat (Suc k)"
      using tick(2) gate False Cons.prems(2) by simp
    have "Suc k < 5" using False Cons.prems(3) by simp
    then show ?thesis
      using Cons.IH [OF tick(1) t] tick(3) gate False Cons.prems(2) by simp
  qed
qed

text \<open>
  C6. The gate of the source is \<open>fbw_timer > 4\<close> after the increment, so the
  recomputation runs on every fifth fast tick, not on every fourth: from a timer of 0,
  four ticks run it not at all, eight ticks once, ten ticks twice.
\<close>

theorem simple_recompute_every_fifth_tick:
  "calls_of Calc_waypoint_nav
     (run_fast flight_build (replicate 4 quiet) (init_copter\<lparr>control_mode := SIMPLE\<rparr>)) = 0
   \<and> calls_of Calc_waypoint_nav
     (run_fast flight_build (replicate 8 quiet) (init_copter\<lparr>control_mode := SIMPLE\<rparr>)) = 1
   \<and> calls_of Calc_waypoint_nav
     (run_fast flight_build (replicate 10 quiet) (init_copter\<lparr>control_mode := SIMPLE\<rparr>)) = 2"
  using simple_run [of "init_copter\<lparr>control_mode := SIMPLE\<rparr>" 0 flight_build "replicate 4 quiet"]
    simple_run [of "init_copter\<lparr>control_mode := SIMPLE\<rparr>" 0 flight_build "replicate 8 quiet"]
    simple_run [of "init_copter\<lparr>control_mode := SIMPLE\<rparr>" 0 flight_build "replicate 10 quiet"]
  by (simp add: calls_of_def)

text \<open>
  C9. Whenever the gated recomputation of \<open>SIMPLE\<close> mode runs, that is, whenever the
  incremented timer exceeds 4, the latitude and longitude of \<open>current_loc\<close> are 0
  afterwards, whatever the state of the GPS; the bearing and the distance are computed
  from the zeroed location; and the next valid fix writes the position again. On a tick
  where the gate stays shut, \<open>current_loc\<close> is left alone.
\<close>

theorem simple_recompute_zeroes_position:
  assumes "control_mode s = SIMPLE"
  shows "(Calc_waypoint_nav \<in> set (new_calls s (update_current_flight_mode b i s))
            \<longleftrightarrow> 4 < fbw_timer s + 1)
       \<and> (4 < fbw_timer s + 1 \<longrightarrow>
            lat (current_loc (update_current_flight_mode b i s)) = 0
          \<and> lng (current_loc (update_current_flight_mode b i s)) = 0
          \<and> alt (current_loc (update_current_flight_mode b i s)) = alt (current_loc s)
          \<and> nav_bearing (update_current_flight_mode b i s)
              = wrap_360 i (get_bearing i ((current_loc s)\<lparr>lat := 0, lng := 0\<rparr>)
                   (next_WP (update_current_flight_mode b i s)) + initial_simple_bearing s)
          \<and> wp_distance (update_current_flight_mode b i s)
              = get_distance i ((current_loc s)\<lparr>lat := 0, lng := 0\<rparr>)
                   (next_WP (update_current_flight_mode b i s)))
       \<and> (\<not> 4 < fbw_timer s + 1 \<longrightarrow>
            current_loc (update_current_flight_mode b i s) = current_loc s)
       \<and> (valid_fix j \<longrightarrow>
            lat (current_loc (update_GPS b j (update_current_flight_mode b i s)))
              = latitude (gps_in j)
          \<and> lng (current_loc (update_GPS b j (update_current_flight_mode b i s)))
              = longitude (gps_in j))"
proof -
  have gate: "Calc_waypoint_nav \<in> set (new_calls s (update_current_flight_mode b i s))
            \<longleftrightarrow> 4 < fbw_timer s + 1"
    using assms by (simp add: new_calls_mode)
  have zero: "4 < fbw_timer s + 1 \<Longrightarrow>
            lat (current_loc (update_current_flight_mode b i s)) = 0
          \<and> lng (current_loc (update_current_flight_mode b i s)) = 0
          \<and> alt (current_loc (update_current_flight_mode b i s)) = alt (current_loc s)
          \<and> nav_bearing (update_current_flight_mode b i s)
              = wrap_360 i (get_bearing i ((current_loc s)\<lparr>lat := 0, lng := 0\<rparr>)
                   (next_WP (update_current_flight_mode b i s)) + initial_simple_bearing s)
          \<and> wp_distance (update_current_flight_mode b i s)
              = get_distance i ((current_loc s)\<lparr>lat := 0, lng := 0\<rparr>)
                   (next_WP (update_current_flight_mode b i s))"
    using assms by (simp add: update_current_flight_mode_def emits_def Let_def)
  have shut: "\<not> 4 < fbw_timer s + 1 \<Longrightarrow>
            current_loc (update_current_flight_mode b i s) = current_loc s"
    using assms by (simp add: update_current_flight_mode_def emits_def Let_def)
  have rewritten: "valid_fix j \<Longrightarrow>
            lat (current_loc (update_GPS b j t)) = latitude (gps_in j)
          \<and> lng (current_loc (update_GPS b j t)) = longitude (gps_in j)" for t
    by (simp add: update_GPS_def valid_fix_def emit_def init_home_def Let_def)
  show ?thesis
    using gate zero shut rewritten by blast
qed

theorem simple_recompute_zeroes_position_witness:
  "lat (current_loc (update_current_flight_mode flight_build quiet
      (init_copter\<lparr>control_mode := SIMPLE, fbw_timer := 4,
         current_loc := \<lparr>lat = 473977000, lng = 85456000, alt = 120\<rparr>\<rparr>))) = 0
   \<and> lng (current_loc (update_current_flight_mode flight_build quiet
      (init_copter\<lparr>control_mode := SIMPLE, fbw_timer := 4,
         current_loc := \<lparr>lat = 473977000, lng = 85456000, alt = 120\<rparr>\<rparr>))) = 0"
  using simple_recompute_zeroes_position [of "init_copter\<lparr>control_mode := SIMPLE, fbw_timer := 4,
         current_loc := \<lparr>lat = 473977000, lng = 85456000, alt = 120\<rparr>\<rparr>" flight_build quiet]
  by simp

section \<open>Navigation dispatch\<close>

lemma calls_of_if: "calls_of c (if p then x else y) = (if p then calls_of c x else calls_of c y)"
  by simp

lemma calls_of_update_GPS:
  assumes "c \<in> {Calc_loiter_nav, Calc_waypoint_nav, Send_message MSG_HEARTBEAT}"
  shows "calls_of c (update_GPS b i s) = calls_of c s"
  using assms
  by (auto simp add: update_GPS_def init_home_def Let_def calls_of_if
      cong: if_cong split del: if_split)

lemma calls_of_update_alt:
  assumes "c \<in> {Calc_loiter_nav, Calc_waypoint_nav, Send_message MSG_HEARTBEAT}"
  shows "calls_of c (update_alt b i s) = calls_of c s"
  using assms
  by (auto simp add: update_alt_def Let_def calls_of_if
      cong: if_cong split del: if_split)

lemma calls_of_slow_loop:
  assumes "c \<in> {Calc_loiter_nav, Calc_waypoint_nav, Send_message MSG_HEARTBEAT}"
  shows "calls_of c (slow_loop b i s) = calls_of c s"
  using assms
  by (auto simp add: slow_loop_def Let_def calls_of_if
      cong: if_cong split del: if_split)


lemma phase_1_calls:
  assumes "medium_loopCounter s = 1"
  shows "calls_of Calc_loiter_nav (medium_loop_phase b i s) = calls_of Calc_loiter_nav s
           + (if navigating s \<and> tested_distance i s < 800 then 1 else 0)"
    and "calls_of Calc_waypoint_nav (medium_loop_phase b i s) = calls_of Calc_waypoint_nav s
           + (if navigating s \<and> 800 \<le> tested_distance i s then 1 else 0)"
  using assms
  by (simp_all add: medium_loop_phase_def Let_def navigating_def tested_distance_def)

lemma radio_frame [simp]:
  "medium_loopCounter (emit x s) = medium_loopCounter s"
  "control_mode (emit x s) = control_mode s"
  "g_gps (emit x s) = g_gps s"
  "wp_distance (emit x s) = wp_distance s"
  "counter_one_herz (emit x s) = counter_one_herz s"
  "log_bitmask (emit x s) = log_bitmask s"
  "mainLoop_count (emit x s) = mainLoop_count s"
  "perf_mon_timer (emit x s) = perf_mon_timer s"
  "counter_one_herz (emits xs s) = counter_one_herz s"
  by (simp_all add: emit_def emits_def)

lemma nav_of_radio [simp]:
  "navigating (s\<lparr>rc_1_control_in := x, rc_2_control_in := y, rc_3_control_in := z\<rparr>) = navigating s"
  "navigating (emit c s) = navigating s"
  "tested_distance i (s\<lparr>rc_1_control_in := x, rc_2_control_in := y, rc_3_control_in := z\<rparr>)
     = tested_distance i s"
  "tested_distance i (emit c s) = tested_distance i s"
  by (simp_all add: navigating_def tested_distance_def)

lemma medium_loop_nav_calls:
  assumes "medium_loopCounter s = 1"
  shows "calls_of Calc_loiter_nav (medium_loop b i s) = calls_of Calc_loiter_nav s
           + (if navigating s \<and> tested_distance i s < 800 then 1 else 0)"
    and "calls_of Calc_waypoint_nav (medium_loop b i s) = calls_of Calc_waypoint_nav s
           + (if navigating s \<and> 800 \<le> tested_distance i s then 1 else 0)"
  using assms
  by (simp_all add: medium_loop_def Let_def phase_1_calls calls_of_if
      cong: if_cong split del: if_split)

text \<open>
  C7 (as amended). In a navigation phase of the medium loop in which the mode is neither
  \<open>SIMPLE\<close> nor \<open>FBW\<close>, \<open>calc_loiter_nav\<close> is called, once, exactly when the tested
  distance is below 800, and \<open>calc_waypoint_nav\<close> is called, once, exactly when it is 800 or
  more; the tested distance is the one \<open>navigate()\<close> has just left in \<open>wp_distance\<close> when the
  GPS has new data, and the stored \<open>wp_distance\<close> otherwise. In \<open>SIMPLE\<close> and in \<open>FBW\<close> the
  phase calls neither.
\<close>

theorem navigation_dispatch:
  assumes "medium_loopCounter s = 1"
  shows "calls_of Calc_loiter_nav (medium_loop b i s) = calls_of Calc_loiter_nav s
           + (if control_mode s \<noteq> SIMPLE \<and> control_mode s \<noteq> FBW
                 \<and> (if new_data (g_gps s) then navigate_wp_distance i else wp_distance s) < 800
              then 1 else 0)
       \<and> calls_of Calc_waypoint_nav (medium_loop b i s) = calls_of Calc_waypoint_nav s
           + (if control_mode s \<noteq> SIMPLE \<and> control_mode s \<noteq> FBW
                 \<and> 800 \<le> (if new_data (g_gps s) then navigate_wp_distance i else wp_distance s)
              then 1 else 0)"
  using medium_loop_nav_calls [OF assms, of b i]
  by (simp add: navigating_def tested_distance_def)

theorem navigation_dispatch_witness:
  "calls_of Calc_loiter_nav (medium_loop flight_build quiet
      (init_copter\<lparr>medium_loopCounter := 1, wp_distance := 799\<rparr>)) = 1
   \<and> calls_of Calc_waypoint_nav (medium_loop flight_build quiet
      (init_copter\<lparr>medium_loopCounter := 1, wp_distance := 799\<rparr>)) = 0
   \<and> calls_of Calc_waypoint_nav (medium_loop flight_build quiet
      (init_copter\<lparr>medium_loopCounter := 1, wp_distance := 800\<rparr>)) = 1"
  using navigation_dispatch [of "init_copter\<lparr>medium_loopCounter := 1, wp_distance := 799\<rparr>"
      flight_build quiet]
    navigation_dispatch [of "init_copter\<lparr>medium_loopCounter := 1, wp_distance := 800\<rparr>"
      flight_build quiet]
  by (simp add: init_copter_def no_gps_def calls_of_def)

text \<open>
  The claim as stated fails: in \<open>SIMPLE\<close> mode a navigation phase with a distance of 0
  does not call \<open>calc_loiter_nav\<close>, and in \<open>FBW\<close> mode one with a distance of 1000 does not
  call \<open>calc_waypoint_nav\<close>.
\<close>

theorem no_navigation_in_simple_and_fbw:
  "calls_of Calc_loiter_nav (medium_loop flight_build quiet
      (init_copter\<lparr>control_mode := SIMPLE, medium_loopCounter := 1, wp_distance := 0\<rparr>)) = 0
   \<and> calls_of Calc_waypoint_nav (medium_loop flight_build quiet
      (init_copter\<lparr>control_mode := FBW, medium_loopCounter := 1, wp_distance := 1000\<rparr>)) = 0"
  using medium_loop_nav_calls(1) [of "init_copter\<lparr>control_mode := SIMPLE,
      medium_loopCounter := 1, wp_distance := 0\<rparr>" flight_build quiet]
    medium_loop_nav_calls(2) [of "init_copter\<lparr>control_mode := FBW,
      medium_loopCounter := 1, wp_distance := 1000\<rparr>" flight_build quiet]
  by (simp add: navigating_def calls_of_def)


section \<open>The one-hertz counter\<close>

lemma counter_if:
  "counter_one_herz (if p then x else y) = (if p then counter_one_herz x else counter_one_herz y)"
  by simp

lemma counter_frames:
  "counter_one_herz (update_GPS b i s) = counter_one_herz s"
  "counter_one_herz (update_alt b i s) = counter_one_herz s"
  "counter_one_herz (slow_loop b i s) = counter_one_herz s"
  by (simp_all add: update_GPS_def init_home_def update_alt_def slow_loop_def Let_def counter_if
      cong: if_cong split del: if_split)

lemma counter_phase:
  "counter_one_herz (medium_loop_phase b i s) = counter_one_herz s"
  by (simp add: medium_loop_phase_def Let_def counter_if counter_frames
      cong: if_cong split del: if_split)

lemma counter_medium_loop:
  "counter_one_herz (medium_loop b i s) = counter_one_herz s"
  by (simp add: medium_loop_def Let_def counter_if counter_phase
      cong: if_cong split del: if_split)

lemma heartbeat_phase:
  "calls_of (Send_message MSG_HEARTBEAT) (medium_loop_phase b i s)
     = calls_of (Send_message MSG_HEARTBEAT) s"
  by (simp add: medium_loop_phase_def Let_def calls_of_if
      calls_of_update_GPS calls_of_update_alt calls_of_slow_loop
      cong: if_cong split del: if_split)

lemma heartbeat_medium_loop:
  "calls_of (Send_message MSG_HEARTBEAT) (medium_loop b i s)
     = calls_of (Send_message MSG_HEARTBEAT) s"
  by (simp add: medium_loop_def Let_def calls_of_if heartbeat_phase
      cong: if_cong split del: if_split)

lemma loop_medium_step:
  "counter_one_herz (loop_medium b i s) = counter_one_herz s + 1"
  "calls_of (Send_message MSG_HEARTBEAT) (loop_medium b i s)
     = calls_of (Send_message MSG_HEARTBEAT) s + (if counter_one_herz s + 1 = 50 then 1 else 0)"
  by (simp_all add: loop_medium_def super_slow_loop_def Let_def calls_of_if counter_if
      counter_medium_loop heartbeat_medium_loop
      cong: if_cong split del: if_split) simp_all

lemma byte_is_50: "((of_nat m :: 8 word) = 50) = (m mod 256 = 50)"
proof -
  have "((of_nat m :: 8 word) = of_nat 50) = (m mod 256 = 50)"
    unfolding word_of_nat_eq_iff by (simp add: take_bit_eq_mod)
  then show ?thesis by simp
qed

lemma mod_256_is_50:
  assumes "r < 256" shows "((r + 206) mod 256 = 0) = (r = (50::nat))"
proof -
  have "r + 206 < 256 \<or> (256 \<le> r + 206 \<and> r + 206 < 512)" using assms by arith
  then show ?thesis
  proof
    assume "r + 206 < 256" then show ?thesis by simp
  next
    assume a: "256 \<le> r + 206 \<and> r + 206 < 512"
    have "(r + 206) mod 256 = (r + 206 - 256) mod 256"
      using a by (simp add: le_mod_geq)
    moreover have "r + 206 - 256 < 256"
      using a by arith
    ultimately have "(r + 206) mod 256 = r + 206 - 256"
      by simp
    then show ?thesis using a by arith
  qed
qed

lemma heartbeat_div_step:
  "(Suc m + 206) div 256 = (m + 206) div 256 + (if Suc m mod 256 = 50 then 1 else 0)"
proof -
  have "(Suc (m + 206)) mod 256 = (Suc m mod 256 + 206) mod 256"
    by (metis add_Suc mod_add_left_eq)
  then have e: "(Suc (m + 206) mod 256 = 0) = (Suc m mod 256 = 50)"
    using mod_256_is_50 [of "Suc m mod 256"] by simp
  have "Suc (m + 206) div 256 = (if Suc (m + 206) mod 256 = 0 then Suc ((m + 206) div 256) else (m + 206) div 256)"
    by (rule div_Suc)
  then show ?thesis using e by simp
qed

lemma heartbeat_run:
  assumes "counter_one_herz s = of_nat m"
  shows "counter_one_herz (run_loop_medium b is s) = of_nat (m + length is)
       \<and> calls_of (Send_message MSG_HEARTBEAT) (run_loop_medium b is s)
           + (m + 206) div 256
         = calls_of (Send_message MSG_HEARTBEAT) s + (m + length is + 206) div 256"
  using assms
proof (induction "is" arbitrary: s m)
  case Nil
  then show ?case by simp
next
  case (Cons i "is")
  let ?s = "loop_medium b i s"
  have c: "counter_one_herz ?s = of_nat (Suc m)"
    using loop_medium_step(1) [of b i s] Cons.prems by simp
  have f: "calls_of (Send_message MSG_HEARTBEAT) ?s
     = calls_of (Send_message MSG_HEARTBEAT) s + (if Suc m mod 256 = 50 then 1 else 0)"
    using loop_medium_step(2) [of b i s] Cons.prems byte_is_50 [of "Suc m"] by simp
  note a = heartbeat_div_step [of m]
  show ?case
    using Cons.IH [OF c] f a by simp
qed

text \<open>
  C5. \<open>counter_one_herz\<close> is a byte that \<open>loop\<close> increments on every medium cycle and never
  resets, and \<open>super_slow_loop\<close> runs when it equals 50. From the initial counter 0 the
  heartbeat of \<open>super_slow_loop\<close> is therefore sent on cycle 50 and then every 256 cycles:
  once in the first 100 cycles, still once after 305, twice after 306.
\<close>

theorem super_slow_loop_every_256_cycles:
  "calls_of (Send_message MSG_HEARTBEAT)
     (run_loop_medium flight_build (replicate 49 quiet) init_copter) = 0
   \<and> calls_of (Send_message MSG_HEARTBEAT)
     (run_loop_medium flight_build (replicate 50 quiet) init_copter) = 1
   \<and> calls_of (Send_message MSG_HEARTBEAT)
     (run_loop_medium flight_build (replicate 100 quiet) init_copter) = 1
   \<and> calls_of (Send_message MSG_HEARTBEAT)
     (run_loop_medium flight_build (replicate 305 quiet) init_copter) = 1
   \<and> calls_of (Send_message MSG_HEARTBEAT)
     (run_loop_medium flight_build (replicate 306 quiet) init_copter) = 2"
  using heartbeat_run [of init_copter 0 flight_build "replicate 49 quiet"]
    heartbeat_run [of init_copter 0 flight_build "replicate 50 quiet"]
    heartbeat_run [of init_copter 0 flight_build "replicate 100 quiet"]
    heartbeat_run [of init_copter 0 flight_build "replicate 305 quiet"]
    heartbeat_run [of init_copter 0 flight_build "replicate 306 quiet"]
  by (simp add: calls_of_def)

section \<open>De-selection of data codes\<close>

declare select_loop.simps [simp del]
declare parse_records.simps [simp del]















section \<open>Malformed packets\<close>

lemma failed_effect:
  "snd (failed ms s) = False"
  "last_data_time_ms (fst (failed ms s)) = last_data_time_ms s"
  "sim_trace (fst (failed ms s)) = sim_trace s
     @ (if 200 < ms - last_data_time_ms s then []
        else [Sim ''extrapolate_sensors'', Sim ''update_position'', Sim ''time_advance'',
              Sim ''update_mag_field_bf''])"
  "200 < ms - last_data_time_ms s \<Longrightarrow> fst (failed ms s) = s"
  "time_now_us (fst (failed ms s))
     = time_now_us s + (if 200 < ms - last_data_time_ms s then 0 else 1000)"
  by (simp_all add: failed_def sim_emit_def Let_def)

lemma malformed_goes_to_failed:
  assumes "malformed (recv_pkt i)"
  shows "receive_data c i s = failed (failed_ms i)
     (sim_emit [Socket_recv (if xplane_frame_time s > 1
               \<and> now_ms i + 1 \<ge> last_data_time_ms s + xplane_frame_time s
            then 10 else 1)] s)"
proof (cases "recv_pkt i")
  case None
  then show ?thesis by (simp add: receive_data_def Let_def)
next
  case (Some bs)
  then have "length bs < 41 \<or> take 4 bs \<noteq> DATA"
    using assms by (simp add: malformed_def)
  then show ?thesis
    using Some by (auto simp add: receive_data_def Let_def)
qed

text \<open>
  C8. When \<open>recv\<close> yields nothing, fewer than 41 bytes, or a packet that does not begin
  with the bytes of \<open>DATA\<close>, \<open>receive_data\<close> returns false and goes from the \<open>recv\<close> call
  straight to the code after \<open>failed\<close>: the result does not depend on the bytes received,
  no record of the packet is applied, and the time of the last valid data is left as it
  was. Sensors are extrapolated, by one millisecond, exactly when at most 200 ms have
  passed since the last valid data; beyond that the call changes nothing.
\<close>

theorem malformed_packet_is_dropped:
  assumes "malformed (recv_pkt i)"
    and "w = (if xplane_frame_time s > 1
               \<and> now_ms i + 1 \<ge> last_data_time_ms s + xplane_frame_time s
              then 10 else 1)"
  shows "snd (receive_data c i s) = False
       \<and> receive_data c i s = failed (failed_ms i) (sim_emit [Socket_recv w] s)
       \<and> \<not> list_ex is_Apply (new_sim_calls s (fst (receive_data c i s)))
       \<and> last_data_time_ms (fst (receive_data c i s)) = last_data_time_ms s
       \<and> (Sim ''extrapolate_sensors'' \<in> set (new_sim_calls s (fst (receive_data c i s)))
            \<longleftrightarrow> failed_ms i - last_data_time_ms s \<le> 200)
       \<and> (200 < failed_ms i - last_data_time_ms s \<longrightarrow>
            fst (receive_data c i s) = sim_emit [Socket_recv w] s)"
proof -
  let ?s = "sim_emit [Socket_recv w] s"
  have e: "receive_data c i s = failed (failed_ms i) ?s"
    using malformed_goes_to_failed [OF assms(1), of c s] assms(2) by simp
  have l: "last_data_time_ms ?s = last_data_time_ms s" "sim_trace ?s = sim_trace s @ [Socket_recv w]"
    by (simp_all add: sim_emit_def)
  have t: "new_sim_calls s (fst (failed (failed_ms i) ?s)) = Socket_recv w
     # (if 200 < failed_ms i - last_data_time_ms s then []
        else [Sim ''extrapolate_sensors'', Sim ''update_position'', Sim ''time_advance'',
              Sim ''update_mag_field_bf''])"
    using failed_effect(3) [of "failed_ms i" ?s] l by (simp add: new_sim_calls_def)
  show ?thesis
    unfolding e t
    using failed_effect(1,2,4) [of "failed_ms i" ?s] l
    by (auto simp add: is_Apply_def not_less)
qed

theorem malformed_packet_is_dropped_witness:
  "snd (receive_data \<lparr>Times_code = 1, required_codes = [1, 3]\<rparr> short_packet
            (sim0\<lparr>last_data_time_ms := 900\<rparr>)) = False
   \<and> Sim ''extrapolate_sensors'' \<in> set (new_sim_calls (sim0\<lparr>last_data_time_ms := 900\<rparr>)
        (fst (receive_data \<lparr>Times_code = 1, required_codes = [1, 3]\<rparr> short_packet
            (sim0\<lparr>last_data_time_ms := 900\<rparr>))))
   \<and> fst (receive_data \<lparr>Times_code = 1, required_codes = [1, 3]\<rparr> short_packet
            (sim0\<lparr>last_data_time_ms := 800\<rparr>))
       = sim_emit [Socket_recv 1] (sim0\<lparr>last_data_time_ms := 800\<rparr>)"
proof -
  have m: "malformed (recv_pkt short_packet)"
    by (simp add: malformed_def short_packet_def)
  have w: "(1 :: 32 word) = (if xplane_frame_time (sim0\<lparr>last_data_time_ms := t\<rparr>) > 1
               \<and> now_ms short_packet + 1
                   \<ge> last_data_time_ms (sim0\<lparr>last_data_time_ms := t\<rparr>)
                     + xplane_frame_time (sim0\<lparr>last_data_time_ms := t\<rparr>)
              then 10 else 1)" for t
    by (simp add: sim0_def)
  have f: "failed_ms short_packet = 1001"
    by (simp add: short_packet_def)
  show ?thesis
    using m
      malformed_packet_is_dropped [OF m w [of 900],
        where c = "\<lparr>Times_code = 1, required_codes = [1, 3]\<rparr>"]
      malformed_packet_is_dropped [OF m w [of 800],
        where c = "\<lparr>Times_code = 1, required_codes = [1, 3]\<rparr>"]
    by (simp add: f failed_def sim_emit_def new_sim_calls_def sim0_def Let_def)
qed

end
